theory Spec2Isabelle
  imports Complex_Main "HOL-Library.Word" "HOL-Library.AList" "HOL-Library.Sublist"
begin

section \<open>Values, pointers and the heap\<close>

text \<open>
  The library (\<^verbatim>\<open>src/json.c\<close>) works on heap nodes of type \<^verbatim>\<open>struct MTY_JSON\<close>
  through raw pointers. A pointer is an address or \<^verbatim>\<open>NULL\<close> (\<open>None\<close>); the heap maps
  the addresses that are allocated to their nodes. A node is the struct's tag together
  with the member of the union that the tag selects:
  \<^item> \<^verbatim>\<open>char *string\<close> is the owned C string, kept as its characters;
  \<^item> \<^verbatim>\<open>MTY_Hash *object\<close> is the owned table, kept as its entries;
  \<^item> \<^verbatim>\<open>array.length\<close> and \<^verbatim>\<open>array.elements\<close> are the list of element pointers
    (elements are never \<^verbatim>\<open>NULL\<close>: the only writer, \<^verbatim>\<open>MTY_JSONArrayAppendItem\<close>,
    rejects \<^verbatim>\<open>NULL\<close>).
  A \<^verbatim>\<open>double\<close> is modelled as a real number; no statement below depends on rounding.
\<close>

type_synonym addr = nat

datatype json_type =
  JSON_BOOLEAN | JSON_NUMBER | JSON_STRING | JSON_OBJECT | JSON_ARRAY | JSON_NULL

type_synonym MTY_Hash = "(string \<times> addr) list"

datatype MTY_JSON =
    Boolean bool
  | Number real
  | String string
  | Object MTY_Hash
  | Array "addr list"
  | Null

fun json_type_of :: "MTY_JSON \<Rightarrow> json_type" where
  "json_type_of (Boolean b) = JSON_BOOLEAN"
| "json_type_of (Number d) = JSON_NUMBER"
| "json_type_of (String s) = JSON_STRING"
| "json_type_of (Object m) = JSON_OBJECT"
| "json_type_of (Array es) = JSON_ARRAY"
| "json_type_of Null = JSON_NULL"

text \<open>
  \<open>h_cells\<close> holds the allocated nodes, \<open>h_brk\<close> is the next address the allocator
  hands out. Reading through a pointer to a cell that is not allocated is undefined
  behaviour in C; the model reports it as the fault \<open>InvalidPointer\<close>, and an index
  outside a fixed-size array as \<open>OutOfBounds\<close>.
\<close>

record heap =
  h_cells :: "addr \<Rightarrow> MTY_JSON option"
  h_brk :: addr

datatype fault = OutOfBounds | InvalidPointer

definition heap_empty :: heap where
  "heap_empty = \<lparr>h_cells = (\<lambda>a. None), h_brk = 0\<rparr>"

text \<open>
  Modelled from the spec: the allocator (\<^verbatim>\<open>MTY_Alloc\<close>, \<^verbatim>\<open>MTY_Realloc\<close>, \<^verbatim>\<open>MTY_Strdup\<close>,
  \<^verbatim>\<open>MTY_Free\<close>) is declared in \<^verbatim>\<open>matoya.h\<close> and implemented outside \<^verbatim>\<open>json.c\<close>; the
  spec (section 1) names it as an external collaborator, a general allocator and
  memory-duplication facility. \<open>MTY_Alloc h item\<close> is \<^verbatim>\<open>MTY_Alloc(1, sizeof(MTY_JSON))\<close>
  followed by the initialisation of the node: it hands out an address that was never
  used. \<^verbatim>\<open>MTY_Alloc(nelem, elsize)\<close> is taken to return zero-filled memory, as
  \<^verbatim>\<open>json.c\<close> itself assumes: \<^verbatim>\<open>json_create\<close> sets no length for an Array, and
  \<^verbatim>\<open>json_parse_string_raw\<close> writes no terminating NUL. Strings and element arrays are
  part of their node, so \<^verbatim>\<open>MTY_Strdup\<close>, \<^verbatim>\<open>MTY_Realloc\<close> and the \<^verbatim>\<open>MTY_Free\<close> of a
  string or an element array have no cell of their own.
\<close>

definition MTY_Alloc :: "heap \<Rightarrow> MTY_JSON \<Rightarrow> addr \<times> heap" where
  "MTY_Alloc h item =
     (h_brk h, h\<lparr>h_cells := (h_cells h)(h_brk h \<mapsto> item), h_brk := Suc (h_brk h)\<rparr>)"

definition MTY_Free :: "heap \<Rightarrow> addr \<Rightarrow> heap" where
  "MTY_Free h a = h\<lparr>h_cells := (h_cells h)(a := None)\<rparr>"

subsection \<open>Results: faults and non-termination\<close>

text \<open>
  A function that can hit undefined behaviour returns \<open>fault + 'a\<close>. A function that
  can also fail to return (a loop that never ends, a recursion over a cyclic heap)
  returns \<open>(fault + 'a) option\<close>, where \<open>None\<close> means that it does not return.
\<close>

definition rbind ::
  "(fault + 'a) option \<Rightarrow> ('a \<Rightarrow> (fault + 'b) option) \<Rightarrow> (fault + 'b) option" where
  "rbind m k = Option.bind m (\<lambda>r. case r of Inl e \<Rightarrow> Some (Inl e) | Inr v \<Rightarrow> k v)"

text \<open>A \<^verbatim>\<open>for\<close> loop over a fixed sequence, threading the state and stopping at a fault.\<close>

primrec for_each ::
  "'a list \<Rightarrow> ('a \<Rightarrow> 's \<Rightarrow> (fault + 's) option) \<Rightarrow> 's \<Rightarrow> (fault + 's) option" where
  "for_each [] body s = Some (Inr s)"
| "for_each (x # xs) body s = rbind (body x s) (for_each xs body)"

lemma rbind_mono [partial_function_mono]:
  assumes "mono_option B" and "\<And>y. mono_option (\<lambda>f. C y f)"
  shows "mono_option (\<lambda>f. rbind (B f) (\<lambda>y. C y f))"
  unfolding rbind_def
proof (rule bind_mono [OF assms(1)])
  fix r :: "fault + 'c"
  show "mono_option (\<lambda>f. case r of Inl e \<Rightarrow> Some (Inl e) | Inr v \<Rightarrow> C v f)"
    by (cases r) (simp_all add: option.const_mono assms(2))
qed

lemma for_each_mono [partial_function_mono]:
  assumes "\<And>x s. mono_option (\<lambda>f. B f x s)"
  shows "mono_option (\<lambda>f. for_each xs (B f) s)"
proof (induction xs arbitrary: s)
  case Nil
  show ?case by (simp add: option.const_mono)
next
  case (Cons x xs)
  show ?case
    unfolding for_each.simps by (rule rbind_mono [OF assms Cons])
qed

section \<open>The backing map\<close>

text \<open>
  Modelled from the spec: \<^verbatim>\<open>MTY_Hash\<close> and its functions \<^verbatim>\<open>MTY_HashCreate\<close>,
  \<^verbatim>\<open>MTY_HashGet\<close>, \<^verbatim>\<open>MTY_HashSet\<close>, \<^verbatim>\<open>MTY_HashPop\<close>, \<^verbatim>\<open>MTY_HashGetNextKey\<close> and
  \<^verbatim>\<open>MTY_HashDestroy\<close> are declared in \<^verbatim>\<open>matoya.h\<close> and implemented outside
  \<^verbatim>\<open>json.c\<close>. The spec (section 6) gives their contract: \<open>get(key)\<close> returns the
  borrowed value or none; \<open>set(key, value)\<close> returns the previous value or none;
  \<open>pop(key)\<close> removes the entry and returns its value or none; \<open>get_next_key(cursor)\<close>
  enumerates every key exactly once per pass; \<open>destroy(map, destructor)\<close> destroys each
  stored value with the destructor. The table is a list of entries with one entry per
  key; the list order stands for the map's native order.
\<close>

definition MTY_HashCreate :: "nat \<Rightarrow> MTY_Hash" where
  "MTY_HashCreate hint = []"

definition MTY_HashGet :: "MTY_Hash \<Rightarrow> string \<Rightarrow> addr option" where
  "MTY_HashGet m k = map_of m k"

definition MTY_HashSet :: "MTY_Hash \<Rightarrow> string \<Rightarrow> addr \<Rightarrow> MTY_Hash \<times> addr option" where
  "MTY_HashSet m k v = (AList.update k v m, map_of m k)"

definition MTY_HashPop :: "MTY_Hash \<Rightarrow> string \<Rightarrow> MTY_Hash \<times> addr option" where
  "MTY_HashPop m k = (AList.delete k m, map_of m k)"

definition MTY_HashGetNextKey :: "MTY_Hash \<Rightarrow> nat \<Rightarrow> (string \<times> nat) option" where
  "MTY_HashGetNextKey m iter =
     (if iter < length m then Some (fst (m ! iter), Suc iter) else None)"

definition MTY_HashDestroy ::
  "MTY_Hash \<Rightarrow> (addr option \<Rightarrow> heap \<Rightarrow> (fault + heap) option) \<Rightarrow> heap \<Rightarrow> (fault + heap) option" where
  "MTY_HashDestroy m destructor h = for_each (map snd m) (\<lambda>v. destructor (Some v)) h"

lemma MTY_HashDestroy_mono [partial_function_mono]:
  assumes "\<And>p s. mono_option (\<lambda>f. B f p s)"
  shows "mono_option (\<lambda>f. MTY_HashDestroy m (B f) h)"
  unfolding MTY_HashDestroy_def by (rule for_each_mono) (rule assms)

section \<open>Construction and destruction\<close>

text \<open>
  \<^verbatim>\<open>json_create(type, val)\<close>: \<open>val\<close> is a \<^verbatim>\<open>const void *\<close>; \<open>cvalue\<close> is what it points to
  when it is not \<^verbatim>\<open>NULL\<close>. The \<^verbatim>\<open>switch\<close> has no case for \<^verbatim>\<open>JSON_ARRAY\<close> and
  \<^verbatim>\<open>JSON_NULL\<close>: the union stays zero-filled (an array of length 0). Every call in
  \<^verbatim>\<open>json.c\<close> passes \<^verbatim>\<open>NULL\<close> or a pointer of the type the tag reads.
\<close>

datatype cvalue = CBool bool | CDouble real | CString string

definition json_create :: "heap \<Rightarrow> json_type \<Rightarrow> cvalue option \<Rightarrow> addr \<times> heap" where
  "json_create h t val =
     MTY_Alloc h
       (case t of
          JSON_BOOLEAN \<Rightarrow> Boolean (case val of Some (CBool b) \<Rightarrow> b | _ \<Rightarrow> False)
        | JSON_NUMBER \<Rightarrow> Number (case val of Some (CDouble d) \<Rightarrow> d | _ \<Rightarrow> 0)
        | JSON_STRING \<Rightarrow> String (case val of Some (CString s) \<Rightarrow> s | _ \<Rightarrow> [])
        | JSON_OBJECT \<Rightarrow> Object (MTY_HashCreate 20)
        | JSON_ARRAY \<Rightarrow> Array []
        | JSON_NULL \<Rightarrow> Null)"

text \<open>
  \<^verbatim>\<open>json_delete(ptr)\<close>: recursive destruction. On a heap that is not a tree the C code
  recurses forever (a cycle) or reads a node that is already freed (a shared child).
\<close>

partial_function (option) json_delete :: "addr option \<Rightarrow> heap \<Rightarrow> (fault + heap) option" where
  "json_delete ptr h =
     (case ptr of
        None \<Rightarrow> Some (Inr h)
      | Some a \<Rightarrow>
          (case h_cells h a of
             None \<Rightarrow> Some (Inl InvalidPointer)
           | Some item \<Rightarrow>
               rbind
                 (case item of
                    String s \<Rightarrow> Some (Inr h)
                  | Object m \<Rightarrow> MTY_HashDestroy m json_delete h
                  | Array es \<Rightarrow> for_each es (\<lambda>e. json_delete (Some e)) h
                  | _ \<Rightarrow> Some (Inr h))
                 (\<lambda>h'. Some (Inr (MTY_Free h' a)))))"

definition MTY_JSONDestroy :: "heap \<Rightarrow> addr option option \<Rightarrow> (fault + addr option option \<times> heap) option" where
  "MTY_JSONDestroy h json =
     (case json of
        None \<Rightarrow> Some (Inr (json, h))
      | Some None \<Rightarrow> Some (Inr (json, h))
      | Some (Some a) \<Rightarrow> rbind (json_delete (Some a) h) (\<lambda>h'. Some (Inr (Some None, h'))))"

section \<open>Container primitives\<close>

definition MTY_JSONObjCreate :: "heap \<Rightarrow> addr \<times> heap" where
  "MTY_JSONObjCreate h = json_create h JSON_OBJECT None"

definition MTY_JSONArrayCreate :: "heap \<Rightarrow> addr \<times> heap" where
  "MTY_JSONArrayCreate h = json_create h JSON_ARRAY None"

definition MTY_JSONObjGetItem :: "heap \<Rightarrow> addr option \<Rightarrow> string \<Rightarrow> fault + addr option" where
  "MTY_JSONObjGetItem h json k =
     (case json of
        None \<Rightarrow> Inr None
      | Some a \<Rightarrow>
          (case h_cells h a of
             None \<Rightarrow> Inl InvalidPointer
           | Some (Object m) \<Rightarrow> Inr (MTY_HashGet m k)
           | Some _ \<Rightarrow> Inr None))"

definition MTY_JSONObjKeyExists :: "heap \<Rightarrow> addr option \<Rightarrow> string \<Rightarrow> fault + bool" where
  "MTY_JSONObjKeyExists h json k =
     (case MTY_JSONObjGetItem h json k of Inl e \<Rightarrow> Inl e | Inr p \<Rightarrow> Inr (p \<noteq> None))"

definition MTY_JSONObjGetNextKey ::
  "heap \<Rightarrow> addr option \<Rightarrow> nat \<Rightarrow> fault + (string \<times> nat) option" where
  "MTY_JSONObjGetNextKey h json iter =
     (case json of
        None \<Rightarrow> Inr None
      | Some a \<Rightarrow>
          (case h_cells h a of
             None \<Rightarrow> Inl InvalidPointer
           | Some (Object m) \<Rightarrow> Inr (MTY_HashGetNextKey m iter)
           | Some _ \<Rightarrow> Inr None))"

definition MTY_JSONObjDeleteItem :: "heap \<Rightarrow> addr option \<Rightarrow> string \<Rightarrow> (fault + heap) option" where
  "MTY_JSONObjDeleteItem h json k =
     (case json of
        None \<Rightarrow> Some (Inr h)
      | Some a \<Rightarrow>
          (case h_cells h a of
             None \<Rightarrow> Some (Inl InvalidPointer)
           | Some (Object m) \<Rightarrow>
               (case MTY_HashPop m k of
                  (m', old) \<Rightarrow> json_delete old (h\<lparr>h_cells := (h_cells h)(a \<mapsto> Object m')\<rparr>))
           | Some _ \<Rightarrow> Some (Inr h)))"

text \<open>
  \<^verbatim>\<open>if (!json || !value || json->type != JSON_OBJECT) return;\<close> The conditions are
  tested left to right, so \<open>json\<close> is read only when both pointers are not \<^verbatim>\<open>NULL\<close>.
\<close>

definition MTY_JSONObjSetItem ::
  "heap \<Rightarrow> addr option \<Rightarrow> string \<Rightarrow> addr option \<Rightarrow> (fault + heap) option" where
  "MTY_JSONObjSetItem h json k val =
     (case json of
        None \<Rightarrow> Some (Inr h)
      | Some a \<Rightarrow>
          (case val of
             None \<Rightarrow> Some (Inr h)
           | Some v \<Rightarrow>
               (case h_cells h a of
                  None \<Rightarrow> Some (Inl InvalidPointer)
                | Some (Object m) \<Rightarrow>
                    (case MTY_HashSet m k v of
                       (m', old) \<Rightarrow> json_delete old (h\<lparr>h_cells := (h_cells h)(a \<mapsto> Object m')\<rparr>))
                | Some _ \<Rightarrow> Some (Inr h))))"

definition MTY_JSONArrayGetLength :: "heap \<Rightarrow> addr option \<Rightarrow> fault + nat" where
  "MTY_JSONArrayGetLength h json =
     (case json of
        None \<Rightarrow> Inr 0
      | Some a \<Rightarrow>
          (case h_cells h a of
             None \<Rightarrow> Inl InvalidPointer
           | Some (Array es) \<Rightarrow> Inr (length es)
           | Some _ \<Rightarrow> Inr 0))"

definition MTY_JSONArrayGetItem :: "heap \<Rightarrow> addr option \<Rightarrow> nat \<Rightarrow> fault + addr option" where
  "MTY_JSONArrayGetItem h json index =
     (case json of
        None \<Rightarrow> Inr None
      | Some a \<Rightarrow>
          (case h_cells h a of
             None \<Rightarrow> Inl InvalidPointer
           | Some (Array es) \<Rightarrow> Inr (if index < length es then Some (es ! index) else None)
           | Some _ \<Rightarrow> Inr None))"

definition MTY_JSONArrayIndexExists :: "heap \<Rightarrow> addr option \<Rightarrow> nat \<Rightarrow> fault + bool" where
  "MTY_JSONArrayIndexExists h json index =
     (case MTY_JSONArrayGetItem h json index of Inl e \<Rightarrow> Inl e | Inr p \<Rightarrow> Inr (p \<noteq> None))"

definition MTY_JSONArrayAppendItem :: "heap \<Rightarrow> addr option \<Rightarrow> addr option \<Rightarrow> fault + heap" where
  "MTY_JSONArrayAppendItem h json val =
     (case json of
        None \<Rightarrow> Inr h
      | Some a \<Rightarrow>
          (case val of
             None \<Rightarrow> Inr h
           | Some v \<Rightarrow>
               (case h_cells h a of
                  None \<Rightarrow> Inl InvalidPointer
                | Some (Array es) \<Rightarrow> Inr (h\<lparr>h_cells := (h_cells h)(a \<mapsto> Array (es @ [v]))\<rparr>)
                | Some _ \<Rightarrow> Inr h)))"

section \<open>Typed getters and setters\<close>

text \<open>
  A getter writes its result through a pointer. The model takes the value the caller's
  variable holds before the call and returns the flag together with the value it holds
  after the call. \<^verbatim>\<open>snprintf(value, size, "%s", s)\<close> writes at most \<open>size - 1\<close>
  characters and the terminator, and nothing when \<open>size\<close> is 0.
\<close>

definition snprintf_s :: "string \<Rightarrow> nat \<Rightarrow> string \<Rightarrow> string" where
  "snprintf_s buf sz s = (if sz = 0 then buf else take (sz - 1) s)"

definition json_to_string ::
  "heap \<Rightarrow> addr option \<Rightarrow> string \<Rightarrow> nat \<Rightarrow> fault + bool \<times> string" where
  "json_to_string h json val sz =
     (case json of
        None \<Rightarrow> Inr (False, val)
      | Some a \<Rightarrow>
          (case h_cells h a of
             None \<Rightarrow> Inl InvalidPointer
           | Some (String s) \<Rightarrow> Inr (True, snprintf_s val sz s)
           | Some _ \<Rightarrow> Inr (False, val)))"

text \<open>
  \<open>lrint\<close> stands for libm's \<^verbatim>\<open>lrint\<close> followed by the conversion of its \<^verbatim>\<open>long\<close> to
  \<^verbatim>\<open>int32_t\<close>; \<open>to_float\<close> for the conversion \<^verbatim>\<open>(float)\<close>. Both are parameters.
\<close>

definition json_to_int ::
  "(real \<Rightarrow> 32 word) \<Rightarrow> heap \<Rightarrow> addr option \<Rightarrow> 32 word \<Rightarrow> fault + bool \<times> 32 word" where
  "json_to_int lrint h json val =
     (case json of
        None \<Rightarrow> Inr (False, val)
      | Some a \<Rightarrow>
          (case h_cells h a of
             None \<Rightarrow> Inl InvalidPointer
           | Some (Number d) \<Rightarrow> Inr (True, lrint d)
           | Some _ \<Rightarrow> Inr (False, val)))"

text \<open>
  \<^verbatim>\<open>int32_t v = 0; bool r = json_to_int(json, &v); *value = (int16_t) v; return r;\<close>
  The store to \<^verbatim>\<open>*value\<close> is not guarded by \<open>r\<close>. The narrowing cast keeps the low bits.
\<close>

definition json_to_int16 ::
  "(real \<Rightarrow> 32 word) \<Rightarrow> heap \<Rightarrow> addr option \<Rightarrow> 16 word \<Rightarrow> fault + bool \<times> 16 word" where
  "json_to_int16 lrint h json val =
     (case json_to_int lrint h json 0 of
        Inl e \<Rightarrow> Inl e
      | Inr (r, v) \<Rightarrow> Inr (r, ucast v))"

definition json_to_int8 ::
  "(real \<Rightarrow> 32 word) \<Rightarrow> heap \<Rightarrow> addr option \<Rightarrow> 8 word \<Rightarrow> fault + bool \<times> 8 word" where
  "json_to_int8 lrint h json val =
     (case json_to_int lrint h json 0 of
        Inl e \<Rightarrow> Inl e
      | Inr (r, v) \<Rightarrow> Inr (r, ucast v))"

definition json_to_float ::
  "(real \<Rightarrow> real) \<Rightarrow> heap \<Rightarrow> addr option \<Rightarrow> real \<Rightarrow> fault + bool \<times> real" where
  "json_to_float to_float h json val =
     (case json of
        None \<Rightarrow> Inr (False, val)
      | Some a \<Rightarrow>
          (case h_cells h a of
             None \<Rightarrow> Inl InvalidPointer
           | Some (Number d) \<Rightarrow> Inr (True, to_float d)
           | Some _ \<Rightarrow> Inr (False, val)))"

definition json_to_bool :: "heap \<Rightarrow> addr option \<Rightarrow> bool \<Rightarrow> fault + bool \<times> bool" where
  "json_to_bool h json val =
     (case json of
        None \<Rightarrow> Inr (False, val)
      | Some a \<Rightarrow>
          (case h_cells h a of
             None \<Rightarrow> Inl InvalidPointer
           | Some (Boolean b) \<Rightarrow> Inr (True, b)
           | Some _ \<Rightarrow> Inr (False, val)))"

definition json_is_null :: "heap \<Rightarrow> addr option \<Rightarrow> fault + bool" where
  "json_is_null h json =
     (case json of
        None \<Rightarrow> Inr False
      | Some a \<Rightarrow>
          (case h_cells h a of
             None \<Rightarrow> Inl InvalidPointer
           | Some item \<Rightarrow> Inr (json_type_of item = JSON_NULL)))"

text \<open>
  The public getters look the member up and hand it to the converter. The unsigned
  variants cast the output pointer; on words the stored bits are the same.
\<close>

definition obj_get ::
  "heap \<Rightarrow> addr option \<Rightarrow> string \<Rightarrow> (addr option \<Rightarrow> fault + 'r) \<Rightarrow> fault + 'r" where
  "obj_get h json k conv =
     (case MTY_JSONObjGetItem h json k of Inl e \<Rightarrow> Inl e | Inr p \<Rightarrow> conv p)"

definition array_get ::
  "heap \<Rightarrow> addr option \<Rightarrow> nat \<Rightarrow> (addr option \<Rightarrow> fault + 'r) \<Rightarrow> fault + 'r" where
  "array_get h json index conv =
     (case MTY_JSONArrayGetItem h json index of Inl e \<Rightarrow> Inl e | Inr p \<Rightarrow> conv p)"

definition MTY_JSONObjGetString ::
  "heap \<Rightarrow> addr option \<Rightarrow> string \<Rightarrow> string \<Rightarrow> nat \<Rightarrow> fault + bool \<times> string" where
  "MTY_JSONObjGetString h json k val sz = obj_get h json k (\<lambda>p. json_to_string h p val sz)"

definition MTY_JSONObjGetInt ::
  "(real \<Rightarrow> 32 word) \<Rightarrow> heap \<Rightarrow> addr option \<Rightarrow> string \<Rightarrow> 32 word \<Rightarrow> fault + bool \<times> 32 word" where
  "MTY_JSONObjGetInt lrint h json k val = obj_get h json k (\<lambda>p. json_to_int lrint h p val)"

definition MTY_JSONObjGetUInt ::
  "(real \<Rightarrow> 32 word) \<Rightarrow> heap \<Rightarrow> addr option \<Rightarrow> string \<Rightarrow> 32 word \<Rightarrow> fault + bool \<times> 32 word" where
  "MTY_JSONObjGetUInt lrint h json k val = obj_get h json k (\<lambda>p. json_to_int lrint h p val)"

definition MTY_JSONObjGetInt8 ::
  "(real \<Rightarrow> 32 word) \<Rightarrow> heap \<Rightarrow> addr option \<Rightarrow> string \<Rightarrow> 8 word \<Rightarrow> fault + bool \<times> 8 word" where
  "MTY_JSONObjGetInt8 lrint h json k val = obj_get h json k (\<lambda>p. json_to_int8 lrint h p val)"

definition MTY_JSONObjGetUInt8 ::
  "(real \<Rightarrow> 32 word) \<Rightarrow> heap \<Rightarrow> addr option \<Rightarrow> string \<Rightarrow> 8 word \<Rightarrow> fault + bool \<times> 8 word" where
  "MTY_JSONObjGetUInt8 lrint h json k val = obj_get h json k (\<lambda>p. json_to_int8 lrint h p val)"

definition MTY_JSONObjGetInt16 ::
  "(real \<Rightarrow> 32 word) \<Rightarrow> heap \<Rightarrow> addr option \<Rightarrow> string \<Rightarrow> 16 word \<Rightarrow> fault + bool \<times> 16 word" where
  "MTY_JSONObjGetInt16 lrint h json k val = obj_get h json k (\<lambda>p. json_to_int16 lrint h p val)"

definition MTY_JSONObjGetUInt16 ::
  "(real \<Rightarrow> 32 word) \<Rightarrow> heap \<Rightarrow> addr option \<Rightarrow> string \<Rightarrow> 16 word \<Rightarrow> fault + bool \<times> 16 word" where
  "MTY_JSONObjGetUInt16 lrint h json k val = obj_get h json k (\<lambda>p. json_to_int16 lrint h p val)"

definition MTY_JSONObjGetFloat ::
  "(real \<Rightarrow> real) \<Rightarrow> heap \<Rightarrow> addr option \<Rightarrow> string \<Rightarrow> real \<Rightarrow> fault + bool \<times> real" where
  "MTY_JSONObjGetFloat to_float h json k val =
     obj_get h json k (\<lambda>p. json_to_float to_float h p val)"

definition MTY_JSONObjGetBool ::
  "heap \<Rightarrow> addr option \<Rightarrow> string \<Rightarrow> bool \<Rightarrow> fault + bool \<times> bool" where
  "MTY_JSONObjGetBool h json k val = obj_get h json k (\<lambda>p. json_to_bool h p val)"

definition MTY_JSONObjIsValNull :: "heap \<Rightarrow> addr option \<Rightarrow> string \<Rightarrow> fault + bool" where
  "MTY_JSONObjIsValNull h json k = obj_get h json k (json_is_null h)"

definition MTY_JSONArrayGetString ::
  "heap \<Rightarrow> addr option \<Rightarrow> nat \<Rightarrow> string \<Rightarrow> nat \<Rightarrow> fault + bool \<times> string" where
  "MTY_JSONArrayGetString h json index val sz =
     array_get h json index (\<lambda>p. json_to_string h p val sz)"

definition MTY_JSONArrayGetInt ::
  "(real \<Rightarrow> 32 word) \<Rightarrow> heap \<Rightarrow> addr option \<Rightarrow> nat \<Rightarrow> 32 word \<Rightarrow> fault + bool \<times> 32 word" where
  "MTY_JSONArrayGetInt lrint h json index val =
     array_get h json index (\<lambda>p. json_to_int lrint h p val)"

definition MTY_JSONArrayGetUInt ::
  "(real \<Rightarrow> 32 word) \<Rightarrow> heap \<Rightarrow> addr option \<Rightarrow> nat \<Rightarrow> 32 word \<Rightarrow> fault + bool \<times> 32 word" where
  "MTY_JSONArrayGetUInt lrint h json index val =
     array_get h json index (\<lambda>p. json_to_int lrint h p val)"

definition MTY_JSONArrayGetFloat ::
  "(real \<Rightarrow> real) \<Rightarrow> heap \<Rightarrow> addr option \<Rightarrow> nat \<Rightarrow> real \<Rightarrow> fault + bool \<times> real" where
  "MTY_JSONArrayGetFloat to_float h json index val =
     array_get h json index (\<lambda>p. json_to_float to_float h p val)"

definition MTY_JSONArrayGetBool ::
  "heap \<Rightarrow> addr option \<Rightarrow> nat \<Rightarrow> bool \<Rightarrow> fault + bool \<times> bool" where
  "MTY_JSONArrayGetBool h json index val = array_get h json index (\<lambda>p. json_to_bool h p val)"

definition MTY_JSONArrayIsValNull :: "heap \<Rightarrow> addr option \<Rightarrow> nat \<Rightarrow> fault + bool" where
  "MTY_JSONArrayIsValNull h json index = array_get h json index (json_is_null h)"

text \<open>
  The setters build the node first and then call \<^verbatim>\<open>MTY_JSONObjSetItem\<close>. A \<^verbatim>\<open>float\<close>
  is a real number too (every \<^verbatim>\<open>float\<close> and every 32-bit integer is a \<^verbatim>\<open>double\<close>).
\<close>

definition obj_set ::
  "heap \<Rightarrow> addr option \<Rightarrow> string \<Rightarrow> json_type \<Rightarrow> cvalue option \<Rightarrow> (fault + heap) option" where
  "obj_set h json k t val =
     (case json_create h t val of (item, h') \<Rightarrow> MTY_JSONObjSetItem h' json k (Some item))"

definition MTY_JSONObjSetString ::
  "heap \<Rightarrow> addr option \<Rightarrow> string \<Rightarrow> string option \<Rightarrow> (fault + heap) option" where
  "MTY_JSONObjSetString h json k val = obj_set h json k JSON_STRING (map_option CString val)"

definition MTY_JSONObjSetInt ::
  "heap \<Rightarrow> addr option \<Rightarrow> string \<Rightarrow> 32 word \<Rightarrow> (fault + heap) option" where
  "MTY_JSONObjSetInt h json k val =
     obj_set h json k JSON_NUMBER (Some (CDouble (real_of_int (sint val))))"

definition MTY_JSONObjSetUInt ::
  "heap \<Rightarrow> addr option \<Rightarrow> string \<Rightarrow> 32 word \<Rightarrow> (fault + heap) option" where
  "MTY_JSONObjSetUInt h json k val =
     obj_set h json k JSON_NUMBER (Some (CDouble (real (unat val))))"

definition MTY_JSONObjSetFloat ::
  "heap \<Rightarrow> addr option \<Rightarrow> string \<Rightarrow> real \<Rightarrow> (fault + heap) option" where
  "MTY_JSONObjSetFloat h json k val = obj_set h json k JSON_NUMBER (Some (CDouble val))"

definition MTY_JSONObjSetBool ::
  "heap \<Rightarrow> addr option \<Rightarrow> string \<Rightarrow> bool \<Rightarrow> (fault + heap) option" where
  "MTY_JSONObjSetBool h json k val = obj_set h json k JSON_BOOLEAN (Some (CBool val))"

definition MTY_JSONObjSetNull :: "heap \<Rightarrow> addr option \<Rightarrow> string \<Rightarrow> (fault + heap) option" where
  "MTY_JSONObjSetNull h json k = obj_set h json k JSON_NULL None"

section \<open>Output\<close>

text \<open>
  C strings: a \<^verbatim>\<open>char *\<close> is modelled by the bytes stored from the pointer on; the
  string it denotes ends before the first NUL byte (\<^verbatim>\<open>strlen\<close>).
\<close>

definition NUL :: char where
  "NUL = CHR 0x00"

definition dquote :: char where
  "dquote = CHR 0x22"

definition c_str :: "string \<Rightarrow> string" where
  "c_str mem = takeWhile (\<lambda>c. c \<noteq> NUL) mem"

text \<open>
  \<^verbatim>\<open>json_output_raw(str, output, len)\<close>: \<open>output\<close> is the buffer, whose size is \<^verbatim>\<open>*len\<close>.
  \<^verbatim>\<open>new_len = strlen(str) + 1; pos = *len; *len += new_len;\<close> then the buffer is
  reallocated to \<^verbatim>\<open>*len\<close> bytes and \<^verbatim>\<open>snprintf(*output + pos, new_len, "%s", str)\<close>
  writes the characters of \<open>str\<close> and a NUL from offset \<open>pos\<close> on, that is, after all
  \<open>*len\<close> bytes written so far, the NUL of the previous piece included.
\<close>

definition json_output_raw :: "string \<Rightarrow> string \<Rightarrow> string" where
  "json_output_raw str output = output @ c_str str @ [NUL]"

text \<open>\<open>fmt\<close> stands for the \<^verbatim>\<open>"%f"\<close> conversion of \<^verbatim>\<open>snprintf\<close>, cut to the 64-byte buffer.\<close>

definition json_output_number :: "(real \<Rightarrow> string) \<Rightarrow> real \<Rightarrow> string \<Rightarrow> string" where
  "json_output_number fmt number output = json_output_raw (take 63 (fmt number)) output"

definition json_output_string :: "string \<Rightarrow> string \<Rightarrow> string" where
  "json_output_string str output =
     json_output_raw [dquote] (json_output_raw str (json_output_raw [dquote] output))"

partial_function (option) json_output ::
  "(real \<Rightarrow> string) \<Rightarrow> heap \<Rightarrow> addr option \<Rightarrow> bool \<Rightarrow> string \<Rightarrow> (fault + string) option" where
  "json_output fmt h item pretty output =
     (case item of
        None \<Rightarrow> Some (Inl InvalidPointer)
      | Some a \<Rightarrow>
          (case h_cells h a of
             None \<Rightarrow> Some (Inl InvalidPointer)
           | Some node \<Rightarrow>
               (case node of
                  Boolean b \<Rightarrow>
                    Some (Inr (json_output_raw (if b then ''true'' else ''false'') output))
                | Number d \<Rightarrow> Some (Inr (json_output_number fmt d output))
                | String s \<Rightarrow> Some (Inr (json_output_string s output))
                | Null \<Rightarrow> Some (Inr (json_output_raw ''null'' output))
                | Object m \<Rightarrow>
                    rbind
                      (for_each (map fst m)
                         (\<lambda>k (first, out).
                            (case MTY_JSONObjGetItem h item k of
                               Inl e \<Rightarrow> Some (Inl e)
                             | Inr member \<Rightarrow>
                                 rbind
                                   (json_output fmt h member pretty
                                      (json_output_raw '':''
                                         (json_output_string k
                                            (if first then out else json_output_raw '','' out))))
                                   (\<lambda>out'. Some (Inr (False, out')))))
                         (True, json_output_raw ''{'' output))
                      (\<lambda>(first, out). Some (Inr (json_output_raw ''}'' out)))
                | Array es \<Rightarrow>
                    rbind
                      (for_each [0..<length es]
                         (\<lambda>x out.
                            (case MTY_JSONArrayGetItem h item x of
                               Inl e \<Rightarrow> Some (Inl e)
                             | Inr element \<Rightarrow>
                                 json_output fmt h element pretty
                                   (if 0 < x then json_output_raw '','' out else out)))
                         (json_output_raw ''['' output))
                      (\<lambda>out. Some (Inr (json_output_raw '']'' out))))))"

definition json_print ::
  "(real \<Rightarrow> string) \<Rightarrow> heap \<Rightarrow> addr option \<Rightarrow> bool \<Rightarrow> (fault + string) option" where
  "json_print fmt h item pretty = json_output fmt h item pretty []"

text \<open>The result is the buffer the returned \<^verbatim>\<open>char *\<close> points to.\<close>

definition MTY_JSONSerialize ::
  "(real \<Rightarrow> string) \<Rightarrow> heap \<Rightarrow> addr option \<Rightarrow> (fault + string) option" where
  "MTY_JSONSerialize fmt h json =
     (case json of
        None \<Rightarrow> Some (Inr (''null'' @ [NUL]))
      | Some a \<Rightarrow> json_print fmt h json False)"

section \<open>Duplication\<close>

text \<open>
  \<^verbatim>\<open>json_create(JSON_BOOLEAN, &json->value)\<close> reads the first byte of the source's union
  as a \<^verbatim>\<open>bool\<close>: the flag of a Boolean, zero for a Null (its union is zero-filled), and
  for a Number the first byte of the \<^verbatim>\<open>double\<close>, which the parameter \<open>byte0\<close> stands for.
\<close>

definition union_as_bool :: "(real \<Rightarrow> bool) \<Rightarrow> MTY_JSON \<Rightarrow> bool" where
  "union_as_bool byte0 item =
     (case item of Boolean b \<Rightarrow> b | Number d \<Rightarrow> byte0 d | _ \<Rightarrow> False)"

partial_function (option) MTY_JSONDuplicate ::
  "(real \<Rightarrow> bool) \<Rightarrow> heap \<Rightarrow> addr option \<Rightarrow> (fault + addr option \<times> heap) option" where
  "MTY_JSONDuplicate byte0 h json =
     (case json of
        None \<Rightarrow> Some (Inl InvalidPointer)
      | Some a \<Rightarrow>
          (case h_cells h a of
             None \<Rightarrow> Some (Inl InvalidPointer)
           | Some node \<Rightarrow>
               (case node of
                  String s \<Rightarrow>
                    (case json_create h JSON_STRING (Some (CString s)) of
                       (item, h') \<Rightarrow> Some (Inr (Some item, h')))
                | Object m \<Rightarrow>
                    (case json_create h JSON_OBJECT None of
                       (item, h0) \<Rightarrow>
                         rbind
                           (for_each (map fst m)
                              (\<lambda>k h1.
                                 (case MTY_JSONObjGetItem h1 json k of
                                    Inl e \<Rightarrow> Some (Inl e)
                                  | Inr member \<Rightarrow>
                                      rbind (MTY_JSONDuplicate byte0 h1 member)
                                        (\<lambda>(copy, h2). MTY_JSONObjSetItem h2 (Some item) k copy)))
                              h0)
                           (\<lambda>h3. Some (Inr (Some item, h3))))
                | Array es \<Rightarrow>
                    (case json_create h JSON_ARRAY None of
                       (item, h0) \<Rightarrow>
                         rbind
                           (for_each [0..<length es]
                              (\<lambda>x h1.
                                 rbind (MTY_JSONDuplicate byte0 h1 (Some (es ! x)))
                                   (\<lambda>(copy, h2). Some (MTY_JSONArrayAppendItem h2 (Some item) copy)))
                              h0)
                           (\<lambda>h3. Some (Inr (Some item, h3))))
                | _ \<Rightarrow>
                    (case json_create h JSON_BOOLEAN (Some (CBool (union_as_bool byte0 node))) of
                       (item, h') \<Rightarrow> Some (Inr (Some item, h'))))))"

section \<open>Input\<close>

text \<open>
  \<^verbatim>\<open>json_parse_set_item(parent, key, item)\<close>: \<open>parent\<close> points to a slot of the parser's
  stack. The model takes the slot's content and returns its new content. A \<^verbatim>\<open>NULL\<close>
  key handed to the backing map is reported as a fault.
\<close>

definition json_parse_set_item ::
  "heap \<Rightarrow> addr option \<Rightarrow> string option \<Rightarrow> addr option \<Rightarrow> (fault + addr option \<times> heap) option" where
  "json_parse_set_item h parent key item =
     (case parent of
        None \<Rightarrow> Some (Inr (item, h))
      | Some p \<Rightarrow>
          (case h_cells h p of
             None \<Rightarrow> Some (Inl InvalidPointer)
           | Some (Object m) \<Rightarrow>
               (case key of
                  None \<Rightarrow> Some (Inl InvalidPointer)
                | Some k \<Rightarrow>
                    rbind (MTY_JSONObjSetItem h parent k item) (\<lambda>h'. Some (Inr (parent, h'))))
           | Some (Array es) \<Rightarrow>
               rbind (Some (MTY_JSONArrayAppendItem h parent item)) (\<lambda>h'. Some (Inr (parent, h')))
           | Some _ \<Rightarrow> Some (Inr (parent, h))))"

text \<open>
  The token parsers get the rest of the input (\<^verbatim>\<open>input + x\<close>) and return the number of
  characters consumed, with the new content of the slot and the new heap.
  \<^verbatim>\<open>strstr(input, "true") == input\<close> holds exactly when the input starts with \<^verbatim>\<open>true\<close>.
\<close>

definition json_parse_boolean ::
  "heap \<Rightarrow> string \<Rightarrow> string option \<Rightarrow> addr option \<Rightarrow> (fault + nat \<times> addr option \<times> heap) option" where
  "json_parse_boolean h input key parent =
     (case (if prefix ''true'' input then (4, True)
            else if prefix ''false'' input then (5, False)
            else (0, False)) of
        (consumed, val) \<Rightarrow>
          if 0 < consumed then
            (case json_create h JSON_BOOLEAN (Some (CBool val)) of
               (item, h1) \<Rightarrow>
                 rbind (json_parse_set_item h1 parent key (Some item))
                   (\<lambda>(slot, h2). Some (Inr (consumed, slot, h2))))
          else Some (Inr (consumed, parent, h)))"

definition json_parse_number :: "string \<Rightarrow> string option \<Rightarrow> addr option \<Rightarrow> nat" where
  "json_parse_number input key parent = 0"

text \<open>
  \<^verbatim>\<open>json_parse_string_raw(input, parsed)\<close> frees \<^verbatim>\<open>*parsed\<close> and sets it to \<^verbatim>\<open>NULL\<close>
  first; the result is the count and the new \<^verbatim>\<open>*parsed\<close>.
\<close>

definition json_parse_string_raw :: "string \<Rightarrow> string option \<Rightarrow> nat \<times> string option" where
  "json_parse_string_raw input parsed =
     (case (case input of
              [] \<Rightarrow> (input, 0)
            | c # cs \<Rightarrow> if c = dquote then (cs, 1) else (input, 0)) of
        (input1, consumed) \<Rightarrow>
          if dquote \<in> set input1 then
            (let addtl = length (takeWhile (\<lambda>c. c \<noteq> dquote) input1)
             in (consumed + (addtl + 1), Some (take addtl input1)))
          else (consumed, None))"

definition json_parse_string ::
  "heap \<Rightarrow> string \<Rightarrow> string option \<Rightarrow> addr option \<Rightarrow> (fault + nat \<times> addr option \<times> heap) option" where
  "json_parse_string h input key parent =
     (case json_parse_string_raw input None of
        (consumed, parsed) \<Rightarrow>
          if 0 < consumed then
            (case json_create h JSON_STRING (map_option CString parsed) of
               (item, h1) \<Rightarrow>
                 rbind (json_parse_set_item h1 parent key (Some item))
                   (\<lambda>(slot, h2). Some (Inr (consumed, slot, h2))))
          else Some (Inr (consumed, parent, h)))"

definition json_parse_null :: "string \<Rightarrow> string option \<Rightarrow> addr option \<Rightarrow> nat" where
  "json_parse_null input key parent = 0"

text \<open>
  The locals of \<^verbatim>\<open>MTY_JSONParse\<close>: \<^verbatim>\<open>stack[128]\<close>, \<^verbatim>\<open>key\<close>, \<^verbatim>\<open>kv[128]\<close>, \<^verbatim>\<open>spos\<close> (a
  \<^verbatim>\<open>size_t\<close>, so \<^verbatim>\<open>spos - 1\<close> wraps around at 0) and the loop counter \<^verbatim>\<open>x\<close>, with the
  heap. An access to \<^verbatim>\<open>stack\<close> or \<^verbatim>\<open>kv\<close> at an index that is not below 128 is the fault
  \<open>OutOfBounds\<close>.
\<close>

record parse_state =
  p_heap :: heap
  p_stack :: "addr option list"
  p_key :: "string option"
  p_kv :: "bool list"
  p_spos :: "64 word"
  p_x :: nat

definition array_rd :: "'a list \<Rightarrow> 64 word \<Rightarrow> (fault + 'a) option" where
  "array_rd xs i = (if unat i < 128 then Some (Inr (xs ! unat i)) else Some (Inl OutOfBounds))"

definition array_wr :: "'a list \<Rightarrow> 64 word \<Rightarrow> 'a \<Rightarrow> (fault + 'a list) option" where
  "array_wr xs i v = (if unat i < 128 then Some (Inr (xs[unat i := v])) else Some (Inl OutOfBounds))"

text \<open>
  One iteration of the \<^verbatim>\<open>for\<close> loop: the read \<^verbatim>\<open>parent = stack[spos - 1]\<close>, then the
  \<^verbatim>\<open>switch\<close> on \<^verbatim>\<open>input[x]\<close>. Only the token parsers and the default case change \<open>x\<close>.
\<close>

definition json_parse_step :: "string \<Rightarrow> parse_state \<Rightarrow> (fault + parse_state) option" where
  "json_parse_step input s =
     rbind (array_rd (p_stack s) (p_spos s - 1)) (\<lambda>parent.
       let c = input ! p_x s; rest = drop (p_x s) input in
       if c = CHR ''t'' \<or> c = CHR ''f'' then
         rbind (json_parse_boolean (p_heap s) rest (p_key s) parent) (\<lambda>(consumed, slot, h).
         rbind (array_wr (p_stack s) (p_spos s - 1) slot) (\<lambda>stack'.
           Some (Inr (s\<lparr>p_heap := h, p_stack := stack', p_x := p_x s + consumed\<rparr>))))
       else if c \<in> set ''+-0123456789'' then
         Some (Inr (s\<lparr>p_x := p_x s + json_parse_number rest (p_key s) parent\<rparr>))
       else if c = dquote then
         rbind (array_rd (p_kv s) (p_spos s - 1)) (\<lambda>expect_key.
           if expect_key then
             (case json_parse_string_raw rest (p_key s) of
                (consumed, parsed) \<Rightarrow>
                  Some (Inr (s\<lparr>p_key := parsed, p_x := p_x s + consumed\<rparr>)))
           else
             rbind (json_parse_string (p_heap s) rest (p_key s) parent) (\<lambda>(consumed, slot, h).
             rbind (array_wr (p_stack s) (p_spos s - 1) slot) (\<lambda>stack'.
               Some (Inr (s\<lparr>p_heap := h, p_stack := stack', p_x := p_x s + consumed\<rparr>)))))
       else if c = CHR ''n'' then
         Some (Inr (s\<lparr>p_x := p_x s + json_parse_null rest (p_key s) parent\<rparr>))
       else if c = CHR ''{'' then
         (case json_create (p_heap s) JSON_OBJECT None of
            (item, h) \<Rightarrow>
              rbind (array_wr (p_stack s) (p_spos s) (Some item)) (\<lambda>stack'.
              rbind (array_wr (p_kv s) (p_spos s + 1 - 1) True) (\<lambda>kv'.
                Some (Inr (s\<lparr>p_heap := h, p_stack := stack', p_kv := kv',
                              p_spos := p_spos s + 1\<rparr>)))))
       else if c = CHR ''}'' then
         rbind (array_wr (p_kv s) (p_spos s - 1) False) (\<lambda>kv'.
           Some (Inr (s\<lparr>p_kv := kv', p_spos := p_spos s - 1\<rparr>)))
       else if c = CHR '':'' then
         rbind (array_wr (p_kv s) (p_spos s - 1) False) (\<lambda>kv'. Some (Inr (s\<lparr>p_kv := kv'\<rparr>)))
       else if c = CHR '','' then
         rbind (array_wr (p_kv s) (p_spos s - 1) True) (\<lambda>kv'. Some (Inr (s\<lparr>p_kv := kv'\<rparr>)))
       else if c = CHR ''['' then
         (case json_create (p_heap s) JSON_ARRAY None of
            (item, h) \<Rightarrow>
              rbind (array_wr (p_stack s) (p_spos s) (Some item)) (\<lambda>stack'.
              rbind (array_wr (p_kv s) (p_spos s + 1 - 1) False) (\<lambda>kv'.
                Some (Inr (s\<lparr>p_heap := h, p_stack := stack', p_kv := kv',
                              p_spos := p_spos s + 1\<rparr>)))))
       else if c = CHR '']'' then
         rbind (array_wr (p_kv s) (p_spos s - 1) False) (\<lambda>kv'.
           Some (Inr (s\<lparr>p_kv := kv', p_spos := p_spos s - 1\<rparr>)))
       else Some (Inr (s\<lparr>p_x := Suc (p_x s)\<rparr>)))"

text \<open>\<^verbatim>\<open>for (size_t x = 0; x < len;)\<close>: the loop may run forever, and then returns nothing.\<close>

partial_function (option) json_parse_loop ::
  "string \<Rightarrow> parse_state \<Rightarrow> (fault + parse_state) option" where
  "json_parse_loop input s =
     (if p_x s < length input then rbind (json_parse_step input s) (json_parse_loop input)
      else Some (Inr s))"

definition parse_init :: "heap \<Rightarrow> parse_state" where
  "parse_init h =
     \<lparr>p_heap = h, p_stack = replicate 128 None, p_key = None, p_kv = replicate 128 False,
      p_spos = 1, p_x = 0\<rparr>"

text \<open>
  \<^verbatim>\<open>MTY_JSONParse(input)\<close>: the input is the C string at \<open>input\<close>; the result is
  \<^verbatim>\<open>stack[0]\<close> with the heap the parse leaves. The file wrappers \<^verbatim>\<open>MTY_JSONReadFile\<close>
  and \<^verbatim>\<open>MTY_JSONWriteFile\<close> only pass a file's bytes to \<^verbatim>\<open>MTY_JSONParse\<close> and the
  buffer of \<^verbatim>\<open>json_print\<close> to the file system; they are not modelled.
\<close>

definition MTY_JSONParse :: "heap \<Rightarrow> string \<Rightarrow> (fault + addr option \<times> heap) option" where
  "MTY_JSONParse h input =
     rbind (json_parse_loop (c_str input) (parse_init h))
       (\<lambda>s. Some (Inr (p_stack s ! 0, p_heap s)))"

section \<open>Notions used to state the properties\<close>

text \<open>
  The calls \<^verbatim>\<open>MTY_JSONArrayAppendItem(json, v)\<close> for the values \<open>v\<close> of a list, in order.
\<close>

primrec append_items :: "heap \<Rightarrow> addr option \<Rightarrow> addr option list \<Rightarrow> fault + heap" where
  "append_items h json [] = Inr h"
| "append_items h json (v # vs) =
     (case MTY_JSONArrayAppendItem h json v of
        Inl e \<Rightarrow> Inl e
      | Inr h' \<Rightarrow> append_items h' json vs)"

text \<open>
  Ownership: \<open>tree_at h a S\<close> says that the value at address \<open>a\<close> is a tree in the heap
  \<open>h\<close> whose nodes are exactly the addresses in \<open>S\<close>: every node is allocated and no node
  is reached twice (section 3 of the spec: every child has exactly one owner).
  \<open>free_all h S\<close> is the heap \<open>h\<close> with the cells in \<open>S\<close> released.
\<close>

definition children :: "MTY_JSON \<Rightarrow> addr list" where
  "children item = (case item of Object m \<Rightarrow> map snd m | Array es \<Rightarrow> es | _ \<Rightarrow> [])"

inductive tree_at :: "heap \<Rightarrow> addr \<Rightarrow> addr set \<Rightarrow> bool"
  and trees_at :: "heap \<Rightarrow> addr list \<Rightarrow> addr set \<Rightarrow> bool"
  for h :: heap where
  node: "h_cells h a = Some item \<Longrightarrow> trees_at h (children item) S \<Longrightarrow> a \<notin> S
           \<Longrightarrow> tree_at h a (insert a S)"
| nil: "trees_at h [] {}"
| cons: "tree_at h c S1 \<Longrightarrow> trees_at h cs S2 \<Longrightarrow> S1 \<inter> S2 = {}
           \<Longrightarrow> trees_at h (c # cs) (S1 \<union> S2)"

code_pred (modes: i \<Rightarrow> i \<Rightarrow> o \<Rightarrow> bool) tree_at .

definition free_all :: "heap \<Rightarrow> addr set \<Rightarrow> heap" where
  "free_all h S = h\<lparr>h_cells := (\<lambda>x. if x \<in> S then None else h_cells h x)\<rparr>"

section \<open>Facts about results, the machine arithmetic and the backing map\<close>

lemma rbind_simps [simp]:
  "rbind None k = None"
  "rbind (Some (Inl e)) k = Some (Inl e)"
  "rbind (Some (Inr v)) k = k v"
  by (simp_all add: rbind_def)

lemma unat_spos_pred: "1 \<le> unat (w :: 64 word) \<Longrightarrow> unat (w - 1) = unat w - 1"
  by (metis One_nat_def unat_minus_one unat_eq_zero not_one_le_zero)

lemma unat_spos_succ: "unat (w :: 64 word) \<le> 128 \<Longrightarrow> unat (w + 1) = unat w + 1"
  by (simp add: unat_word_ariths)

lemma distinct_filter_key:
  "distinct (map fst m) \<Longrightarrow> map_of m k = Some v \<Longrightarrow> filter (\<lambda>e. fst e = k) m = [(k, v)]"
proof (induction m)
  case Nil
  then show ?case by simp
next
  case (Cons e m)
  show ?case
  proof (cases "fst e = k")
    case True
    then have "k \<notin> fst ` set m" using Cons.prems(1) by auto
    then have "filter (\<lambda>e. fst e = k) m = []" by (auto simp: filter_empty_conv)
    moreover have "e = (k, v)" using True Cons.prems(2) by (cases e) simp
    ultimately show ?thesis by simp
  next
    case False
    then show ?thesis using Cons by (cases e) auto
  qed
qed

section \<open>Destruction of a tree\<close>

lemma json_delete_null: "json_delete None h = Some (Inr h)"
  by (subst json_delete.simps) simp

lemma json_delete_children:
  "json_delete (Some a) h =
     (case h_cells h a of
        None \<Rightarrow> Some (Inl InvalidPointer)
      | Some item \<Rightarrow>
          rbind (for_each (children item) (\<lambda>e. json_delete (Some e)) h)
            (\<lambda>h'. Some (Inr (MTY_Free h' a))))"
  by (subst json_delete.simps)
     (simp add: children_def MTY_HashDestroy_def split: option.splits MTY_JSON.splits)

lemma free_all_empty: "free_all h {} = h"
  by (simp add: free_all_def)

lemma free_all_union: "free_all (free_all h S1) S2 = free_all h (S1 \<union> S2)"
  by (auto simp: free_all_def fun_eq_iff)

lemma MTY_Free_free_all: "MTY_Free (free_all h S) a = free_all h (insert a S)"
  by (auto simp: free_all_def MTY_Free_def fun_eq_iff)

text \<open>
  Destroying a tree needs only the cells of the tree: the statement is about any heap
  \<open>h'\<close> that agrees with \<open>h\<close> on the footprint, which is what the loop over the children
  needs after the first child is gone.
\<close>

lemma json_delete_tree_aux:
  "(tree_at h a S \<longrightarrow> (\<forall>h'::heap. (\<forall>x\<in>S. h_cells h' x = h_cells h x) \<longrightarrow>
       json_delete (Some a) h' = Some (Inr (free_all h' S))))
   \<and> (trees_at h cs T \<longrightarrow> (\<forall>h'::heap. (\<forall>x\<in>T. h_cells h' x = h_cells h x) \<longrightarrow>
       for_each cs (\<lambda>e. json_delete (Some e)) h' = Some (Inr (free_all h' T))))"
proof (induction rule: tree_at_trees_at.induct)
  case (node a item S)
  show ?case
  proof (intro allI impI)
    fix h' :: heap
    assume agree: "\<forall>x\<in>insert a S. h_cells h' x = h_cells h x"
    then have cell: "h_cells h' a = Some item" using node by simp
    from agree have "\<forall>x\<in>S. h_cells h' x = h_cells h x" by simp
    with node have "for_each (children item) (\<lambda>e. json_delete (Some e)) h'
        = Some (Inr (free_all h' S))"
      by blast
    then show "json_delete (Some a) h' = Some (Inr (free_all h' (insert a S)))"
      by (subst json_delete_children) (simp add: cell MTY_Free_free_all)
  qed
next
  case nil
  show ?case by (simp add: free_all_empty)
next
  case (cons c S1 cs S2)
  show ?case
  proof (intro allI impI)
    fix h' :: heap
    assume agree: "\<forall>x\<in>S1 \<union> S2. h_cells h' x = h_cells h x"
    then have "json_delete (Some c) h' = Some (Inr (free_all h' S1))"
      using cons by blast
    moreover have "\<forall>x\<in>S2. h_cells (free_all h' S1) x = h_cells h x"
      using agree cons by (auto simp: free_all_def)
    then have "for_each cs (\<lambda>e. json_delete (Some e)) (free_all h' S1)
        = Some (Inr (free_all (free_all h' S1) S2))"
      using cons by blast
    ultimately show "for_each (c # cs) (\<lambda>e. json_delete (Some e)) h'
        = Some (Inr (free_all h' (S1 \<union> S2)))"
      by (simp add: free_all_union)
  qed
qed

lemma json_delete_tree:
  assumes "tree_at h a S" and "\<forall>x\<in>S. h_cells h' x = h_cells h x"
  shows "json_delete (Some a) h' = Some (Inr (free_all h' S))"
  using json_delete_tree_aux [of h a S "[]" "{}"] assms by blast

lemma tree_at_root: "tree_at h a S \<Longrightarrow> a \<in> S"
  by (induction rule: tree_at_trees_at.inducts(1)) simp_all

section \<open>The parser's loop\<close>

text \<open>A state that an iteration leaves as it is, with input left, is never left.\<close>

lemma json_parse_loop_stuck:
  assumes stuck: "json_parse_step input s = Some (Inr s)" and more: "p_x s < length input"
  shows "json_parse_loop input s = None"
proof (rule ccontr)
  assume "json_parse_loop input s \<noteq> None"
  then obtain r where r: "json_parse_loop input s = Some r" by auto
  have "\<not> (input = input \<and> s = s)"
  proof (rule json_parse_loop.raw_induct
      [where P = "\<lambda>i t y. \<not> (i = input \<and> t = s)", OF _ r])
    fix loop :: "string \<Rightarrow> parse_state \<Rightarrow> (fault + parse_state) option"
    fix i t y
    assume IH: "\<And>i' t' y'. loop i' t' = Some y' \<Longrightarrow> \<not> (i' = input \<and> t' = s)"
    assume body: "(if p_x t < length i then rbind (json_parse_step i t) (loop i)
                   else Some (Inr t)) = Some y"
    show "\<not> (i = input \<and> t = s)"
    proof
      assume "i = input \<and> t = s"
      with body stuck more have "loop input s = Some y" by simp
      then have "\<not> (input = input \<and> s = s)" by (rule IH)
      then show False by simp
    qed
  qed
  then show False by simp
qed

lemma step_number:
  assumes "input ! p_x s = CHR ''1''" "unat (p_spos s - 1) < 128"
  shows "json_parse_step input s = Some (Inr s)"
  using assms by (simp add: json_parse_step_def array_rd_def json_parse_number_def)

lemma step_open_object:
  assumes "input ! p_x s = CHR ''{''" "unat (p_spos s - 1) < 128"
  shows "json_parse_step input s =
     (case json_create (p_heap s) JSON_OBJECT None of
        (item, h) \<Rightarrow>
          rbind (array_wr (p_stack s) (p_spos s) (Some item)) (\<lambda>stack'.
          rbind (array_wr (p_kv s) (p_spos s) True) (\<lambda>kv'.
            Some (Inr (s\<lparr>p_heap := h, p_stack := stack', p_kv := kv',
                          p_spos := p_spos s + 1\<rparr>)))))"
  using assms by (simp add: json_parse_step_def array_rd_def dquote_def)

lemma step_close_object:
  assumes "input ! p_x s = CHR ''}''" "unat (p_spos s - 1) < 128"
  shows "json_parse_step input s =
     Some (Inr (s\<lparr>p_kv := (p_kv s)[unat (p_spos s - 1) := False], p_spos := p_spos s - 1\<rparr>))"
  using assms by (simp add: json_parse_step_def array_rd_def array_wr_def dquote_def)

lemma step_out_of_bounds:
  assumes "\<not> unat (p_spos s - 1) < 128"
  shows "json_parse_step input s = Some (Inl OutOfBounds)"
  using assms by (simp add: json_parse_step_def array_rd_def)

text \<open>
  At an opening brace the loop pushes without advancing: from any depth it runs until
  the write to \<^verbatim>\<open>stack[128]\<close>.
\<close>

lemma push_overflows:
  assumes "n = 128 - unat (p_spos s)" "p_x s < length input" "input ! p_x s = CHR ''{''"
    "1 \<le> unat (p_spos s)" "unat (p_spos s) \<le> 128"
  shows "json_parse_loop input s = Some (Inl OutOfBounds)"
  using assms
proof (induction n arbitrary: s)
  case 0
  then have full: "unat (p_spos s) = 128" by simp
  then have "unat (p_spos s - 1) = 127" using unat_spos_pred [of "p_spos s"] by simp
  then have "json_parse_step input s = Some (Inl OutOfBounds)"
    using 0 full by (simp add: step_open_object array_wr_def json_create_def MTY_Alloc_def)
  then show ?case using 0 by (subst json_parse_loop.simps) simp
next
  case (Suc n)
  then have lt: "unat (p_spos s) < 128" by simp
  have pred: "unat (p_spos s - 1) = unat (p_spos s) - 1"
    using Suc.prems unat_spos_pred by blast
  have succ: "unat (p_spos s + 1) = unat (p_spos s) + 1"
    using Suc.prems unat_spos_succ by blast
  obtain s' where step: "json_parse_step input s = Some (Inr s')"
    and s': "p_x s' = p_x s" "p_spos s' = p_spos s + 1"
    using Suc.prems lt pred
    by (simp add: step_open_object array_wr_def json_create_def MTY_Alloc_def)
  have "json_parse_loop input s' = Some (Inl OutOfBounds)"
    using Suc.prems s' succ lt by (intro Suc.IH) simp_all
  then show ?case using Suc.prems step by (subst json_parse_loop.simps) simp
qed

lemma step_open_array:
  assumes "input ! p_x s = CHR ''[''" "unat (p_spos s - 1) < 128"
  shows "json_parse_step input s =
     (case json_create (p_heap s) JSON_ARRAY None of
        (item, h) \<Rightarrow>
          rbind (array_wr (p_stack s) (p_spos s) (Some item)) (\<lambda>stack'.
          rbind (array_wr (p_kv s) (p_spos s) False) (\<lambda>kv'.
            Some (Inr (s\<lparr>p_heap := h, p_stack := stack', p_kv := kv',
                          p_spos := p_spos s + 1\<rparr>)))))"
  using assms by (simp add: json_parse_step_def array_rd_def dquote_def)

lemma push_array_overflows:
  assumes "n = 128 - unat (p_spos s)" "p_x s < length input" "input ! p_x s = CHR ''[''"
    "1 \<le> unat (p_spos s)" "unat (p_spos s) \<le> 128"
  shows "json_parse_loop input s = Some (Inl OutOfBounds)"
  using assms
proof (induction n arbitrary: s)
  case 0
  then have full: "unat (p_spos s) = 128" by simp
  then have "unat (p_spos s - 1) = 127" using unat_spos_pred [of "p_spos s"] by simp
  then have "json_parse_step input s = Some (Inl OutOfBounds)"
    using 0 full by (simp add: step_open_array array_wr_def json_create_def MTY_Alloc_def)
  then show ?case using 0 by (subst json_parse_loop.simps) simp
next
  case (Suc n)
  then have lt: "unat (p_spos s) < 128" by simp
  have pred: "unat (p_spos s - 1) = unat (p_spos s) - 1"
    using Suc.prems unat_spos_pred by blast
  have succ: "unat (p_spos s + 1) = unat (p_spos s) + 1"
    using Suc.prems unat_spos_succ by blast
  obtain s' where step: "json_parse_step input s = Some (Inr s')"
    and s': "p_x s' = p_x s" "p_spos s' = p_spos s + 1"
    using Suc.prems lt pred
    by (simp add: step_open_array array_wr_def json_create_def MTY_Alloc_def)
  have "json_parse_loop input s' = Some (Inl OutOfBounds)"
    using Suc.prems s' succ lt by (intro Suc.IH) simp_all
  then show ?case using Suc.prems step by (subst json_parse_loop.simps) simp
qed

lemma step_close_array:
  assumes "input ! p_x s = CHR '']''" "unat (p_spos s - 1) < 128"
  shows "json_parse_step input s =
     Some (Inr (s\<lparr>p_kv := (p_kv s)[unat (p_spos s - 1) := False], p_spos := p_spos s - 1\<rparr>))"
  using assms by (simp add: json_parse_step_def array_rd_def array_wr_def dquote_def)

lemma step_null:
  assumes "input ! p_x s = CHR ''n''" "unat (p_spos s - 1) < 128"
  shows "json_parse_step input s = Some (Inr s)"
  using assms by (simp add: json_parse_step_def array_rd_def json_parse_null_def dquote_def)

lemma step_boolean_no_match:
  assumes "input ! p_x s = CHR ''t''" "unat (p_spos s - 1) < 128"
    "\<not> prefix ''true'' (drop (p_x s) input)" "\<not> prefix ''false'' (drop (p_x s) input)"
  shows "json_parse_step input s = Some (Inr s)"
  using assms by (simp add: json_parse_step_def array_rd_def array_wr_def json_parse_boolean_def)

text \<open>
  After a closing bracket at depth 0 the next iteration reads \<^verbatim>\<open>stack[spos - 1]\<close> with
  \<open>spos = 0\<close>.
\<close>

lemma pop_underflows:
  assumes first: "json_parse_step input s =
      Some (Inr (s\<lparr>p_kv := (p_kv s)[unat (p_spos s - 1) := False], p_spos := p_spos s - 1\<rparr>))"
    and "p_spos s = 1" "p_x s < length input"
  shows "json_parse_loop input s = Some (Inl OutOfBounds)"
proof -
  define s1 where "s1 = s\<lparr>p_kv := (p_kv s)[unat (p_spos s - 1) := False], p_spos := p_spos s - 1\<rparr>"
  have "p_spos s1 = 0" using assms(2) by (simp add: s1_def)
  then have "\<not> unat (p_spos s1 - 1) < 128"
    by (simp add: unsigned_minus_1_eq_mask mask_eq_exp_minus_1)
  then have second: "json_parse_step input s1 = Some (Inl OutOfBounds)"
    by (rule step_out_of_bounds)
  have x: "p_x s1 < length input" using assms(3) by (simp add: s1_def)
  have "json_parse_loop input s1 = Some (Inl OutOfBounds)"
    by (subst json_parse_loop.simps) (simp add: second x)
  then show ?thesis
    using first assms(3) unfolding s1_def [symmetric]
    by (subst json_parse_loop.simps) simp
qed

section \<open>The claims\<close>

text \<open>
  C1 (the first container pushed becomes the root; a top-level scalar becomes the root
  directly). The code does not do the first: the cases \<^verbatim>\<open>'{'\<close> and \<^verbatim>\<open>'['\<close> store the new
  container in \<^verbatim>\<open>stack[spos++]\<close> only, never in \<^verbatim>\<open>stack[0]\<close> or in its parent, and leave
  \<open>x\<close> where it is. On every input that starts with \<^verbatim>\<open>{\<close> or \<^verbatim>\<open>[\<close>, such as \<^verbatim>\<open>{}\<close> and
  \<^verbatim>\<open>[]\<close>, the loop pushes a new container in every iteration and ends with the write to
  \<^verbatim>\<open>stack[128]\<close>; no root is returned.
\<close>

theorem parse_container_overflows_stack:
  "MTY_JSONParse h (CHR ''{'' # rest) = Some (Inl OutOfBounds)
   \<and> MTY_JSONParse h (CHR ''['' # rest) = Some (Inl OutOfBounds)
   \<and> MTY_JSONParse h ''{}'' = Some (Inl OutOfBounds)
   \<and> MTY_JSONParse h ''[]'' = Some (Inl OutOfBounds)"
proof -
  have "json_parse_loop (CHR ''{'' # input) (parse_init h) = Some (Inl OutOfBounds)" for input
    by (rule push_overflows [OF refl]) (simp_all add: parse_init_def)
  moreover
  have "json_parse_loop (CHR ''['' # input) (parse_init h) = Some (Inl OutOfBounds)" for input
    by (rule push_array_overflows [OF refl]) (simp_all add: parse_init_def)
  ultimately show ?thesis
    by (simp add: MTY_JSONParse_def c_str_def NUL_def)
qed

text \<open>
  The scalar case does hold: a Boolean literal at the top level becomes the root, a
  freshly allocated node, and the heap is otherwise as before.
\<close>

lemma parse_top_level_boolean_is_root:
  "\<exists>h'. MTY_JSONParse h ''true'' = Some (Inr (Some (h_brk h), h'))
     \<and> h_cells h' (h_brk h) = Some (Boolean True)
     \<and> (\<forall>b. b \<noteq> h_brk h \<longrightarrow> h_cells h' b = h_cells h b)"
  by (simp add: MTY_JSONParse_def parse_init_def c_str_def NUL_def json_parse_loop.simps
      json_parse_step_def array_rd_def array_wr_def json_parse_boolean_def json_create_def
      MTY_Alloc_def json_parse_set_item_def)

text \<open>
  The buffer the serializer fills for a String, an empty Array and an empty Object,
  and what the parser reads in a buffer that starts with a double quote and a NUL.
\<close>

lemma serialize_string_buffer:
  "MTY_JSONSerialize fmt (snd (json_create heap_empty JSON_STRING (Some (CString s)))) (Some 0)
     = Some (Inr ([dquote, NUL] @ c_str s @ [NUL, dquote, NUL]))"
  by (simp add: MTY_JSONSerialize_def json_print_def json_output.simps json_create_def
      MTY_Alloc_def heap_empty_def json_output_string_def json_output_raw_def c_str_def
      NUL_def dquote_def)

lemma serialize_empty_containers:
  "MTY_JSONSerialize fmt (snd (MTY_JSONArrayCreate heap_empty)) (Some 0)
     = Some (Inr [CHR ''['', NUL, CHR '']'', NUL])"
  "MTY_JSONSerialize fmt (snd (MTY_JSONObjCreate heap_empty)) (Some 0)
     = Some (Inr [CHR ''{'', NUL, CHR ''}'', NUL])"
  by (simp_all add: MTY_JSONSerialize_def json_print_def json_output.simps
      MTY_JSONArrayCreate_def MTY_JSONObjCreate_def json_create_def MTY_Alloc_def
      heap_empty_def MTY_HashCreate_def json_output_raw_def c_str_def NUL_def)

lemma parse_lone_quote:
  "\<exists>h'. MTY_JSONParse h (dquote # NUL # mem) = Some (Inr (Some (h_brk h), h'))
     \<and> h_cells h' (h_brk h) = Some (String [])
     \<and> (\<forall>b. b \<noteq> h_brk h \<longrightarrow> h_cells h' b = h_cells h b)"
  by (simp add: MTY_JSONParse_def parse_init_def c_str_def NUL_def dquote_def
      json_parse_loop.simps json_parse_step_def array_rd_def array_wr_def
      json_parse_string_def json_parse_string_raw_def json_create_def MTY_Alloc_def
      json_parse_set_item_def)

text \<open>
  C2 (round trip of trees built from Boolean, String, Array and Object). The code does
  not do it: the serializer writes every piece after the NUL of the piece before, so
  the C string it returns ends after the first piece. For every String \<open>s\<close> (for
  \<^verbatim>\<open>a\<close>, say) that is a lone double quote, which the parser reads back as the empty
  String; for the empty Array and the empty Object it is \<^verbatim>\<open>[\<close> and \<^verbatim>\<open>{\<close>, on which the
  parser overruns its stack.
\<close>

theorem roundtrip_string_loses_payload:
  "(\<exists>h'. rbind
           (MTY_JSONSerialize fmt
              (snd (json_create heap_empty JSON_STRING (Some (CString s)))) (Some 0))
           (MTY_JSONParse (snd (json_create heap_empty JSON_STRING (Some (CString s)))))
         = Some (Inr (Some 1, h'))
      \<and> h_cells h' 0 = Some (String s)
      \<and> h_cells h' 1 = Some (String []))
   \<and> rbind (MTY_JSONSerialize fmt (snd (MTY_JSONArrayCreate heap_empty)) (Some 0))
        (MTY_JSONParse (snd (MTY_JSONArrayCreate heap_empty)))
       = Some (Inl OutOfBounds)
   \<and> rbind (MTY_JSONSerialize fmt (snd (MTY_JSONObjCreate heap_empty)) (Some 0))
        (MTY_JSONParse (snd (MTY_JSONObjCreate heap_empty)))
       = Some (Inl OutOfBounds)"
proof -
  define h0 where "h0 = snd (json_create heap_empty JSON_STRING (Some (CString s)))"
  have h0: "h_brk h0 = 1" "h_cells h0 0 = Some (String s)"
    by (simp_all add: h0_def json_create_def MTY_Alloc_def heap_empty_def)
  from parse_lone_quote [of h0 "c_str s @ [NUL, dquote, NUL]"] obtain h' where
    "MTY_JSONParse h0 (dquote # NUL # c_str s @ [NUL, dquote, NUL])
       = Some (Inr (Some (h_brk h0), h'))"
    "h_cells h' (h_brk h0) = Some (String [])"
    "\<forall>b. b \<noteq> h_brk h0 \<longrightarrow> h_cells h' b = h_cells h0 b"
    by blast
  then have string: "\<exists>h'. rbind (MTY_JSONSerialize fmt h0 (Some 0)) (MTY_JSONParse h0)
         = Some (Inr (Some 1, h'))
      \<and> h_cells h' 0 = Some (String s) \<and> h_cells h' 1 = Some (String [])"
    using h0 serialize_string_buffer [of fmt s] unfolding h0_def [symmetric] by auto
  have overrun: "MTY_JSONParse g (CHR ''['' # NUL # mem) = Some (Inl OutOfBounds)"
      "MTY_JSONParse g (CHR ''{'' # NUL # mem) = Some (Inl OutOfBounds)" for g mem
  proof -
    have "json_parse_loop ''['' (parse_init g) = Some (Inl OutOfBounds)"
      by (rule push_array_overflows [OF refl]) (simp_all add: parse_init_def)
    then show "MTY_JSONParse g (CHR ''['' # NUL # mem) = Some (Inl OutOfBounds)"
      by (simp add: MTY_JSONParse_def c_str_def NUL_def)
    have "json_parse_loop ''{'' (parse_init g) = Some (Inl OutOfBounds)"
      by (rule push_overflows [OF refl]) (simp_all add: parse_init_def)
    then show "MTY_JSONParse g (CHR ''{'' # NUL # mem) = Some (Inl OutOfBounds)"
      by (simp add: MTY_JSONParse_def c_str_def NUL_def)
  qed
  show ?thesis
    using string unfolding h0_def
    by (simp add: serialize_empty_containers overrun)
qed

text \<open>A lone Boolean does survive the round trip: its text is a single piece.\<close>

lemma roundtrip_boolean:
  "\<exists>h'. rbind
           (MTY_JSONSerialize fmt (snd (json_create heap_empty JSON_BOOLEAN (Some (CBool b)))) (Some 0))
           (MTY_JSONParse (snd (json_create heap_empty JSON_BOOLEAN (Some (CBool b)))))
         = Some (Inr (Some 1, h'))
      \<and> h_cells h' 0 = Some (Boolean b)
      \<and> h_cells h' 1 = Some (Boolean b)"
  by (cases b)
     (simp_all add: MTY_JSONSerialize_def json_print_def json_output.simps json_create_def
        MTY_Alloc_def heap_empty_def json_output_raw_def c_str_def NUL_def
        MTY_JSONParse_def parse_init_def json_parse_loop.simps json_parse_step_def
        array_rd_def array_wr_def json_parse_boolean_def json_parse_set_item_def)

text \<open>
  C3 (the parser terminates on every input; a token handler that matches nothing still
  makes progress). The code does not: \<^verbatim>\<open>json_parse_number\<close> and \<^verbatim>\<open>json_parse_null\<close>
  return 0, and \<^verbatim>\<open>json_parse_boolean\<close> returns 0 when neither literal matches, so
  \<^verbatim>\<open>x += 0\<close> leaves the loop in the same state for ever. On every input that starts with
  \<^verbatim>\<open>1\<close> or \<^verbatim>\<open>n\<close>, such as \<^verbatim>\<open>1\<close> and \<^verbatim>\<open>null\<close>, and on the input \<^verbatim>\<open>tru\<close> the parser does
  not return.
\<close>

theorem parse_does_not_return:
  "MTY_JSONParse h (CHR ''1'' # rest) = None
   \<and> MTY_JSONParse h (CHR ''n'' # rest) = None
   \<and> MTY_JSONParse h ''1'' = None
   \<and> MTY_JSONParse h ''null'' = None
   \<and> MTY_JSONParse h ''tru'' = None"
proof -
  have "json_parse_loop (CHR ''1'' # input) (parse_init h) = None" for input
    by (rule json_parse_loop_stuck [OF step_number]) (simp_all add: parse_init_def)
  moreover have "json_parse_loop (CHR ''n'' # input) (parse_init h) = None" for input
    by (rule json_parse_loop_stuck [OF step_null]) (simp_all add: parse_init_def)
  moreover have "json_parse_loop ''tru'' (parse_init h) = None"
    by (rule json_parse_loop_stuck [OF step_boolean_no_match]) (simp_all add: parse_init_def)
  ultimately show ?thesis
    by (simp add: MTY_JSONParse_def c_str_def NUL_def)
qed

text \<open>
  C4 (duplicate makes a deep copy with the same variant and payload). The code does not
  for Number and Null: both share the case of Boolean, which builds the copy with
  \<^verbatim>\<open>json_create(JSON_BOOLEAN, &json->value)\<close>. The copy of a Null is the Boolean
  \<^verbatim>\<open>false\<close>, the copy of every Number \<open>d\<close> is a Boolean.
\<close>

theorem duplicate_changes_variant:
  "(\<exists>h'. MTY_JSONDuplicate byte0 (snd (json_create heap_empty JSON_NULL None)) (Some 0)
            = Some (Inr (Some 1, h'))
       \<and> h_cells h' 0 = Some Null \<and> h_cells h' 1 = Some (Boolean False))
   \<and> (\<exists>h'. MTY_JSONDuplicate byte0
              (snd (json_create heap_empty JSON_NUMBER (Some (CDouble d)))) (Some 0)
            = Some (Inr (Some 1, h'))
       \<and> h_cells h' 0 = Some (Number d) \<and> h_cells h' 1 = Some (Boolean (byte0 d)))"
  by (simp add: MTY_JSONDuplicate.simps json_create_def MTY_Alloc_def heap_empty_def
      union_as_bool_def)

text \<open>
  The other scalars are copied as they are: the copy of a Boolean or a String is a
  fresh node with the same content, and the source is untouched.
\<close>

lemma duplicate_boolean_string:
  assumes "h_cells h a = Some item" and "item = Boolean b \<or> item = String s"
  shows "\<exists>h'. MTY_JSONDuplicate byte0 h (Some a) = Some (Inr (Some (h_brk h), h'))
           \<and> h_cells h' (h_brk h) = Some item
           \<and> (\<forall>x. x \<noteq> h_brk h \<longrightarrow> h_cells h' x = h_cells h x)"
  using assms
  by (subst MTY_JSONDuplicate.simps)
     (auto simp: json_create_def MTY_Alloc_def union_as_bool_def)

text \<open>
  C5 (a getter that fails returns false and leaves the caller's variable as it was).
  The code does not for the 8-bit and 16-bit getters: \<^verbatim>\<open>json_to_int16\<close> and
  \<^verbatim>\<open>json_to_int8\<close> store \<^verbatim>\<open>(int16_t) v\<close> with \<open>v = 0\<close> whether or not \<^verbatim>\<open>json_to_int\<close>
  succeeded. On an empty Object, for every key and whatever the caller's variable
  holds (5, say), the call returns false and the variable holds 0.
\<close>

theorem narrow_getters_overwrite_output:
  "MTY_JSONObjGetInt16 lrint (snd (MTY_JSONObjCreate heap_empty)) (Some 0) k v = Inr (False, 0)
   \<and> MTY_JSONObjGetUInt16 lrint (snd (MTY_JSONObjCreate heap_empty)) (Some 0) k v = Inr (False, 0)
   \<and> MTY_JSONObjGetInt8 lrint (snd (MTY_JSONObjCreate heap_empty)) (Some 0) k w = Inr (False, 0)
   \<and> MTY_JSONObjGetUInt8 lrint (snd (MTY_JSONObjCreate heap_empty)) (Some 0) k w = Inr (False, 0)
   \<and> MTY_JSONObjGetInt16 lrint (snd (MTY_JSONObjCreate heap_empty)) (Some 0) ''missing_key'' 5
       = Inr (False, 0)
   \<and> json_to_int16 lrint h None v = Inr (False, 0)
   \<and> json_to_int8 lrint h None w = Inr (False, 0)"
  by (simp add: MTY_JSONObjGetInt16_def MTY_JSONObjGetUInt16_def MTY_JSONObjGetInt8_def
      MTY_JSONObjGetUInt8_def obj_get_def MTY_JSONObjGetItem_def MTY_JSONObjCreate_def
      json_create_def MTY_Alloc_def heap_empty_def MTY_HashCreate_def MTY_HashGet_def
      json_to_int16_def json_to_int8_def json_to_int_def)

text \<open>
  The wide converters do guard the store: those for strings, 32-bit integers, floats
  and Booleans return false and the old value when the member is missing or of another
  variant.
\<close>

lemma wide_getters_keep_output:
  assumes "json = None \<or> (\<exists>a item. json = Some a \<and> h_cells h a = Some item)"
  shows "(\<forall>a s. json = Some a \<longrightarrow> h_cells h a \<noteq> Some (String s))
           \<longrightarrow> json_to_string h json buf sz = Inr (False, buf)"
    and "(\<forall>a d. json = Some a \<longrightarrow> h_cells h a \<noteq> Some (Number d))
           \<longrightarrow> json_to_int lrint h json i = Inr (False, i)
             \<and> json_to_float to_float h json f = Inr (False, f)"
    and "(\<forall>a b. json = Some a \<longrightarrow> h_cells h a \<noteq> Some (Boolean b))
           \<longrightarrow> json_to_bool h json flag = Inr (False, flag)"
  using assms
  by (auto simp: json_to_string_def json_to_int_def json_to_float_def json_to_bool_def
      split: MTY_JSON.splits)

text \<open>
  C6 (setting a key that exists destroys the previous value and installs the new one:
  afterwards the key has exactly one entry, it holds the new value, and the previous
  value is released). For an Object at \<open>a\<close> whose entry for \<open>k\<close> is \<open>old\<close>, a tree with
  the nodes \<open>S\<close> that does not contain the Object itself: the call returns, the Object
  has the single entry \<open>(k, v)\<close> for \<open>k\<close> and its other keys as before, every node of the
  previous value is freed, and every other cell is unchanged.
\<close>

theorem obj_set_item_destroys_previous:
  assumes obj: "h_cells h a = Some (Object m)"
    and uniq: "distinct (map fst m)"
    and prev: "MTY_HashGet m k = Some old"
    and tree: "tree_at h old S"
    and acyclic: "a \<notin> S"
  shows "\<exists>h' m'. MTY_JSONObjSetItem h (Some a) k (Some v) = Some (Inr h')
           \<and> h_cells h' a = Some (Object m')
           \<and> filter (\<lambda>e. fst e = k) m' = [(k, v)]
           \<and> MTY_HashGet m' k = Some v
           \<and> (\<forall>k'. k' \<noteq> k \<longrightarrow> MTY_HashGet m' k' = MTY_HashGet m k')
           \<and> old \<in> S \<and> (\<forall>x\<in>S. h_cells h' x = None)
           \<and> (\<forall>x. x \<notin> S \<and> x \<noteq> a \<longrightarrow> h_cells h' x = h_cells h x)"
proof -
  define m' where "m' = AList.update k v m"
  define h1 where "h1 = h\<lparr>h_cells := (h_cells h)(a \<mapsto> Object m')\<rparr>"
  have set: "MTY_HashSet m k v = (m', Some old)"
    using prev by (simp add: MTY_HashSet_def MTY_HashGet_def m'_def)
  have "\<forall>x\<in>S. h_cells h1 x = h_cells h x"
    using acyclic by (auto simp: h1_def)
  with tree have del: "json_delete (Some old) h1 = Some (Inr (free_all h1 S))"
    by (rule json_delete_tree)
  have call: "MTY_JSONObjSetItem h (Some a) k (Some v) = Some (Inr (free_all h1 S))"
    using obj set del by (simp add: MTY_JSONObjSetItem_def h1_def)
  have get: "MTY_HashGet m' k = Some v"
    by (simp add: MTY_HashGet_def m'_def update_conv')
  have "distinct (map fst m')"
    using uniq by (simp add: m'_def distinct_update)
  with get have one: "filter (\<lambda>e. fst e = k) m' = [(k, v)]"
    by (simp add: distinct_filter_key MTY_HashGet_def)
  have others: "\<forall>k'. k' \<noteq> k \<longrightarrow> MTY_HashGet m' k' = MTY_HashGet m k'"
    by (simp add: MTY_HashGet_def m'_def update_conv')
  have "h_cells (free_all h1 S) a = Some (Object m')"
    using acyclic by (simp add: free_all_def h1_def)
  moreover have "\<forall>x\<in>S. h_cells (free_all h1 S) x = None"
    by (simp add: free_all_def)
  moreover have "\<forall>x. x \<notin> S \<and> x \<noteq> a \<longrightarrow> h_cells (free_all h1 S) x = h_cells h x"
    by (simp add: free_all_def h1_def)
  ultimately show ?thesis
    using call get one others tree_at_root [OF tree] by blast
qed

text \<open>
  The scenario of the spec: on a new Object, key \<^verbatim>\<open>x\<close> is set to 1 and then to 2. The
  second \<^verbatim>\<open>MTY_JSONObjSetInt\<close> builds the Number 2 at address 2 and calls
  \<^verbatim>\<open>MTY_JSONObjSetItem\<close> on the heap \<open>g\<close>; afterwards the Object has the one entry
  \<open>(x, 2)\<close> and the Number 1 at address 1 is freed.
\<close>

theorem obj_set_item_destroys_previous_witness:
  "\<exists>h1 h2 g.
      MTY_JSONObjCreate heap_empty = (0, h1)
    \<and> MTY_JSONObjSetInt h1 (Some 0) ''x'' 1 = Some (Inr h2)
    \<and> json_create h2 JSON_NUMBER (Some (CDouble 2)) = (2, g)
    \<and> h_cells g 0 = Some (Object [(''x'', 1)])
    \<and> distinct (map fst [(''x'', 1::addr)])
    \<and> MTY_HashGet [(''x'', 1)] ''x'' = Some 1
    \<and> tree_at g 1 {1}
    \<and> 0 \<notin> {1::addr}
    \<and> (\<exists>h3 m'. MTY_JSONObjSetItem g (Some 0) ''x'' (Some 2) = Some (Inr h3)
          \<and> MTY_JSONObjSetInt h2 (Some 0) ''x'' 2 = Some (Inr h3)
          \<and> h_cells h3 0 = Some (Object m')
          \<and> filter (\<lambda>e. fst e = ''x'') m' = [(''x'', 2)]
          \<and> MTY_HashGet m' ''x'' = Some 2
          \<and> h_cells h3 1 = None
          \<and> h_cells h3 2 = Some (Number 2))"
proof -
  define h1 where "h1 = snd (MTY_JSONObjCreate heap_empty)"
  define h2 where "h2 = (snd (json_create h1 JSON_NUMBER (Some (CDouble 1))))
      \<lparr>h_cells := (h_cells (snd (json_create h1 JSON_NUMBER (Some (CDouble 1)))))
                    (0 \<mapsto> Object [(''x'', 1)])\<rparr>"
  define g where "g = snd (json_create h2 JSON_NUMBER (Some (CDouble 2)))"
  have create: "MTY_JSONObjCreate heap_empty = (0, h1)"
    by (simp add: h1_def MTY_JSONObjCreate_def json_create_def MTY_Alloc_def heap_empty_def)
  have cells1: "h_cells h1 0 = Some (Object [])" "h_brk h1 = 1"
    by (simp_all add: h1_def MTY_JSONObjCreate_def json_create_def MTY_Alloc_def
        heap_empty_def MTY_HashCreate_def)
  have first: "MTY_JSONObjSetInt h1 (Some 0) ''x'' 1 = Some (Inr h2)"
    using cells1
    by (simp add: MTY_JSONObjSetInt_def obj_set_def json_create_def MTY_Alloc_def
        MTY_JSONObjSetItem_def MTY_HashSet_def json_delete_null h2_def)
  have cells2: "h_cells h2 0 = Some (Object [(''x'', 1)])" "h_cells h2 1 = Some (Number 1)"
      "h_brk h2 = 2"
    using cells1 by (simp_all add: h2_def json_create_def MTY_Alloc_def)
  have second: "json_create h2 JSON_NUMBER (Some (CDouble 2)) = (2, g)"
    using cells2 by (simp add: g_def json_create_def MTY_Alloc_def)
  have cellsg: "h_cells g 0 = Some (Object [(''x'', 1)])" "h_cells g 1 = Some (Number 1)"
      "h_cells g 2 = Some (Number 2)"
    using cells2 by (simp_all add: g_def json_create_def MTY_Alloc_def)
  have "trees_at g (children (Number 1)) {}"
    by (simp add: children_def tree_at_trees_at.nil)
  with cellsg(2) have tree: "tree_at g 1 {1}"
    using tree_at_trees_at.node [of g 1 "Number 1" "{}"] by simp
  have uniq: "distinct (map fst [(''x'', 1::addr)])" by simp
  have prev: "MTY_HashGet [(''x'', 1)] ''x'' = Some 1" by (simp add: MTY_HashGet_def)
  have acyclic: "0 \<notin> {1::addr}" by simp
  from obj_set_item_destroys_previous [OF cellsg(1) uniq prev tree acyclic, of 2]
  obtain h3 m' where h3: "MTY_JSONObjSetItem g (Some 0) ''x'' (Some 2) = Some (Inr h3)"
      "h_cells h3 0 = Some (Object m')" "filter (\<lambda>e. fst e = ''x'') m' = [(''x'', 2)]"
      "MTY_HashGet m' ''x'' = Some 2" "\<forall>x\<in>{1}. h_cells h3 x = None"
      "\<forall>x. x \<notin> {1} \<and> x \<noteq> 0 \<longrightarrow> h_cells h3 x = h_cells g x"
    by blast
  have "MTY_JSONObjSetInt h2 (Some 0) ''x'' 2 = Some (Inr h3)"
    using second h3(1) by (simp add: MTY_JSONObjSetInt_def obj_set_def)
  moreover have "h_cells h3 1 = None" using h3(5) by simp
  moreover have "h_cells h3 2 = Some (Number 2)" using h3(6) cellsg(3) by simp
  ultimately show ?thesis
    using create first second cellsg(1) uniq prev tree acyclic h3(1-4) by blast
qed

text \<open>
  C7 (on an input that never holds more than 128 open containers, every access to
  \<^verbatim>\<open>stack\<close> and \<^verbatim>\<open>kv\<close> is within bounds). The code does not check: on every input that
  starts with \<^verbatim>\<open>}\<close> or \<^verbatim>\<open>]\<close>, such as \<^verbatim>\<open>}\<close> alone, where no container is ever open, the
  first iteration sets \<open>spos\<close> to 0 and leaves \<open>x\<close> where it is, and the second reads
  \<^verbatim>\<open>stack[spos - 1]\<close> at index \<open>2^64 - 1\<close>.
\<close>

theorem parse_close_underflows_stack:
  "MTY_JSONParse h (CHR ''}'' # rest) = Some (Inl OutOfBounds)
   \<and> MTY_JSONParse h (CHR '']'' # rest) = Some (Inl OutOfBounds)
   \<and> MTY_JSONParse h ''}'' = Some (Inl OutOfBounds)
   \<and> MTY_JSONParse h '']'' = Some (Inl OutOfBounds)"
proof -
  have "json_parse_loop (CHR ''}'' # input) (parse_init h) = Some (Inl OutOfBounds)" for input
    by (rule pop_underflows [OF step_close_object]) (simp_all add: parse_init_def)
  moreover
  have "json_parse_loop (CHR '']'' # input) (parse_init h) = Some (Inl OutOfBounds)" for input
    by (rule pop_underflows [OF step_close_array]) (simp_all add: parse_init_def)
  ultimately show ?thesis
    by (simp add: MTY_JSONParse_def c_str_def NUL_def)
qed

text \<open>Appending to an Array replaces its cell by the longer Array and touches no other.\<close>

lemma append_item_array:
  "h_cells h a = Some (Array es) \<Longrightarrow>
   MTY_JSONArrayAppendItem h (Some a) (Some v)
     = Inr (h\<lparr>h_cells := (h_cells h)(a \<mapsto> Array (es @ [v]))\<rparr>)"
  by (simp add: MTY_JSONArrayAppendItem_def)

lemma append_items_array:
  assumes "h_cells h a = Some (Array es)" and "list_all (\<lambda>v. v \<noteq> None) vs"
  shows "\<exists>h'. append_items h (Some a) vs = Inr h'
            \<and> h_cells h' a = Some (Array (es @ map the vs))
            \<and> (\<forall>b. b \<noteq> a \<longrightarrow> h_cells h' b = h_cells h b)"
  using assms
proof (induction vs arbitrary: h es)
  case Nil
  then show ?case by simp
next
  case (Cons v vs)
  then obtain w where v: "v = Some w" by auto
  define h1 where "h1 = h\<lparr>h_cells := (h_cells h)(a \<mapsto> Array (es @ [w]))\<rparr>"
  have step: "MTY_JSONArrayAppendItem h (Some a) (Some w) = Inr h1"
    using Cons.prems(1) by (simp add: h1_def append_item_array)
  have "h_cells h1 a = Some (Array (es @ [w]))" by (simp add: h1_def)
  moreover have "list_all (\<lambda>v. v \<noteq> None) vs" using Cons.prems(2) by simp
  ultimately obtain h' where h': "append_items h1 (Some a) vs = Inr h'"
      "h_cells h' a = Some (Array ((es @ [w]) @ map the vs))"
      "\<forall>b. b \<noteq> a \<longrightarrow> h_cells h' b = h_cells h1 b"
    using Cons.IH by blast
  have "\<forall>b. b \<noteq> a \<longrightarrow> h_cells h' b = h_cells h b"
    using h'(3) by (simp add: h1_def)
  with h'(1,2) show ?case by (auto simp: step v)
qed

text \<open>
  C8 (append never removes or reorders elements; after appending \<open>n\<close> values to a fresh
  Array, the length is \<open>n\<close> and the element at index \<open>i\<close> is the \<open>i\<close>-th appended value).
  For values \<open>vs\<close> that are not \<^verbatim>\<open>NULL\<close>: appended to an Array with the elements \<open>es\<close>,
  the calls succeed, the length grows by the number of values, the old elements stay
  at their indices, the new ones follow in the order of the calls, and no other cell
  changes; appended to the Array that \<^verbatim>\<open>MTY_JSONArrayCreate\<close> returns, the length is
  the number of values and index \<open>i\<close> holds the \<open>i\<close>-th value.
\<close>

theorem append_keeps_order:
  assumes "list_all (\<lambda>v. v \<noteq> None) vs"
  shows "(h_cells h a = Some (Array es) \<longrightarrow>
          (\<exists>h'. append_items h (Some a) vs = Inr h'
             \<and> MTY_JSONArrayGetLength h' (Some a) = Inr (length es + length vs)
             \<and> (\<forall>i < length es. MTY_JSONArrayGetItem h' (Some a) i = Inr (Some (es ! i)))
             \<and> (\<forall>i < length vs.
                   MTY_JSONArrayGetItem h' (Some a) (length es + i) = Inr (vs ! i))
             \<and> (\<forall>b. b \<noteq> a \<longrightarrow> h_cells h' b = h_cells h b)))
       \<and> (\<exists>h'. append_items (snd (MTY_JSONArrayCreate f))
                  (Some (fst (MTY_JSONArrayCreate f))) vs = Inr h'
             \<and> MTY_JSONArrayGetLength h' (Some (fst (MTY_JSONArrayCreate f)))
                  = Inr (length vs)
             \<and> (\<forall>i < length vs.
                   MTY_JSONArrayGetItem h' (Some (fst (MTY_JSONArrayCreate f))) i
                     = Inr (vs ! i)))"
proof -
  have the_nth: "Some (map the vs ! i) = vs ! i" if "i < length vs" for i
    using assms that by (auto simp: list_all_length)
  have general: "\<exists>h'. append_items g (Some b) vs = Inr h'
             \<and> MTY_JSONArrayGetLength h' (Some b) = Inr (length xs + length vs)
             \<and> (\<forall>i < length xs. MTY_JSONArrayGetItem h' (Some b) i = Inr (Some (xs ! i)))
             \<and> (\<forall>i < length vs.
                   MTY_JSONArrayGetItem h' (Some b) (length xs + i) = Inr (vs ! i))
             \<and> (\<forall>c. c \<noteq> b \<longrightarrow> h_cells h' c = h_cells g c)"
    if "h_cells g b = Some (Array xs)" for g :: heap and b xs
    using append_items_array [OF that assms] the_nth
    by (auto simp: MTY_JSONArrayGetLength_def MTY_JSONArrayGetItem_def nth_append)
  have fresh: "h_cells (snd (MTY_JSONArrayCreate f)) (fst (MTY_JSONArrayCreate f))
      = Some (Array [])"
    by (simp add: MTY_JSONArrayCreate_def json_create_def MTY_Alloc_def)
  show ?thesis
    using general [of h a es] general [OF fresh] by auto
qed

text \<open>
  The scenario of the spec: three values appended to a fresh Array, and the same three
  appended to an Array that already holds the element 9.
\<close>

theorem append_keeps_order_witness:
  "list_all (\<lambda>v. v \<noteq> None) [Some 1, Some 2, Some (3::addr)]
   \<and> h_cells (snd (MTY_Alloc heap_empty (Array [9]))) 0 = Some (Array [9])
   \<and> (\<exists>h'. append_items (snd (MTY_Alloc heap_empty (Array [9]))) (Some 0)
              [Some 1, Some 2, Some 3] = Inr h'
          \<and> MTY_JSONArrayGetLength h' (Some 0) = Inr 4
          \<and> MTY_JSONArrayGetItem h' (Some 0) 0 = Inr (Some 9)
          \<and> MTY_JSONArrayGetItem h' (Some 0) 1 = Inr (Some 1)
          \<and> MTY_JSONArrayGetItem h' (Some 0) 2 = Inr (Some 2)
          \<and> MTY_JSONArrayGetItem h' (Some 0) 3 = Inr (Some 3))
   \<and> (\<exists>h'. append_items (snd (MTY_JSONArrayCreate heap_empty))
              (Some (fst (MTY_JSONArrayCreate heap_empty))) [Some 1, Some 2, Some 3] = Inr h'
          \<and> MTY_JSONArrayGetLength h' (Some (fst (MTY_JSONArrayCreate heap_empty))) = Inr 3
          \<and> MTY_JSONArrayGetItem h' (Some (fst (MTY_JSONArrayCreate heap_empty))) 0
               = Inr (Some 1)
          \<and> MTY_JSONArrayGetItem h' (Some (fst (MTY_JSONArrayCreate heap_empty))) 1
               = Inr (Some 2)
          \<and> MTY_JSONArrayGetItem h' (Some (fst (MTY_JSONArrayCreate heap_empty))) 2
               = Inr (Some 3))"
proof -
  let ?vs = "[Some 1, Some 2, Some (3::addr)]"
  let ?g = "snd (MTY_Alloc heap_empty (Array [9]))"
  let ?f = "snd (MTY_JSONArrayCreate heap_empty)"
  let ?p = "Some (fst (MTY_JSONArrayCreate heap_empty))"
  have nn: "list_all (\<lambda>v. v \<noteq> None) ?vs" by simp
  have cell: "h_cells ?g 0 = Some (Array [9])"
    by (simp add: MTY_Alloc_def heap_empty_def)
  from append_keeps_order [OF nn, where h = ?g and a = 0 and es = "[9]" and f = heap_empty] cell
  obtain h' k' where
    h': "append_items ?g (Some 0) ?vs = Inr h'"
      "MTY_JSONArrayGetLength h' (Some 0) = Inr (length [9::addr] + length ?vs)"
      "\<forall>i < length [9::addr]. MTY_JSONArrayGetItem h' (Some 0) i = Inr (Some ([9] ! i))"
      "\<forall>i < length ?vs. MTY_JSONArrayGetItem h' (Some 0) (length [9::addr] + i) = Inr (?vs ! i)"
    and k': "append_items ?f ?p ?vs = Inr k'"
      "MTY_JSONArrayGetLength k' ?p = Inr (length ?vs)"
      "\<forall>i < length ?vs. MTY_JSONArrayGetItem k' ?p i = Inr (?vs ! i)"
    by blast
  have len: "MTY_JSONArrayGetLength h' (Some 0) = Inr 4"
      "MTY_JSONArrayGetLength k' ?p = Inr 3"
    using h'(2) k'(2) by simp_all
  have old: "MTY_JSONArrayGetItem h' (Some 0) 0 = Inr (Some 9)"
    using h'(3) by simp
  have new: "MTY_JSONArrayGetItem h' (Some 0) 1 = Inr (Some 1)"
      "MTY_JSONArrayGetItem h' (Some 0) 2 = Inr (Some 2)"
      "MTY_JSONArrayGetItem h' (Some 0) 3 = Inr (Some 3)"
    using h'(4) [rule_format, of 0] h'(4) [rule_format, of 1] h'(4) [rule_format, of 2]
    by (simp_all add: numeral_2_eq_2 numeral_3_eq_3)
  have fresh: "MTY_JSONArrayGetItem k' ?p 0 = Inr (Some 1)"
      "MTY_JSONArrayGetItem k' ?p 1 = Inr (Some 2)"
      "MTY_JSONArrayGetItem k' ?p 2 = Inr (Some 3)"
    using k'(3) [rule_format, of 0] k'(3) [rule_format, of 1] k'(3) [rule_format, of 2]
    by simp_all
  from nn cell h'(1) len(1) old new k'(1) len(2) fresh show ?thesis
    by blast
qed

text \<open>
  C9 (object set and array append with a \<^verbatim>\<open>NULL\<close> target or a \<^verbatim>\<open>NULL\<close> value do
  nothing). The calls return and the heap is the one they were given, whatever the
  other arguments are.
\<close>

theorem null_arguments_are_ignored:
  "MTY_JSONObjSetItem h None k val = Some (Inr h)
   \<and> MTY_JSONObjSetItem h json k None = Some (Inr h)
   \<and> MTY_JSONArrayAppendItem h None val = Inr h
   \<and> MTY_JSONArrayAppendItem h json None = Inr h"
  by (simp add: MTY_JSONObjSetItem_def MTY_JSONArrayAppendItem_def split: option.splits)

text \<open>
  C10 (object set, object delete and array append on a target of the wrong variant do
  nothing). When the target is a node that is not an Object, set and delete return
  with the heap they were given; when it is not an Array, append does. The heap holds
  the target, the value passed and everything else, so nothing is installed or freed.
\<close>

theorem wrong_variant_is_ignored:
  assumes "h_cells h a = Some item"
  shows "(json_type_of item \<noteq> JSON_OBJECT \<longrightarrow>
            MTY_JSONObjSetItem h (Some a) k val = Some (Inr h)
          \<and> MTY_JSONObjDeleteItem h (Some a) k = Some (Inr h))
       \<and> (json_type_of item \<noteq> JSON_ARRAY \<longrightarrow>
            MTY_JSONArrayAppendItem h (Some a) val = Inr h)"
  using assms
  by (cases item)
     (simp_all add: MTY_JSONObjSetItem_def MTY_JSONObjDeleteItem_def
        MTY_JSONArrayAppendItem_def split: option.splits)

text \<open>A Number as the target of all three calls, with the value at address 5.\<close>

theorem wrong_variant_is_ignored_witness:
  "h_cells (snd (json_create heap_empty JSON_NUMBER (Some (CDouble 7)))) 0 = Some (Number 7)
   \<and> json_type_of (Number 7) \<noteq> JSON_OBJECT \<and> json_type_of (Number 7) \<noteq> JSON_ARRAY
   \<and> MTY_JSONObjSetItem (snd (json_create heap_empty JSON_NUMBER (Some (CDouble 7))))
        (Some 0) ''x'' (Some 5)
        = Some (Inr (snd (json_create heap_empty JSON_NUMBER (Some (CDouble 7)))))
   \<and> MTY_JSONObjDeleteItem (snd (json_create heap_empty JSON_NUMBER (Some (CDouble 7))))
        (Some 0) ''x''
        = Some (Inr (snd (json_create heap_empty JSON_NUMBER (Some (CDouble 7)))))
   \<and> MTY_JSONArrayAppendItem (snd (json_create heap_empty JSON_NUMBER (Some (CDouble 7))))
        (Some 0) (Some 5)
        = Inr (snd (json_create heap_empty JSON_NUMBER (Some (CDouble 7))))"
proof -
  have cell: "h_cells (snd (json_create heap_empty JSON_NUMBER (Some (CDouble 7)))) 0
      = Some (Number 7)"
    by (simp add: json_create_def MTY_Alloc_def heap_empty_def)
  show ?thesis
    using cell wrong_variant_is_ignored [OF cell, of "''x''" "Some 5"] by simp
qed

end
